theory Spec2Isabelle
  imports Main
begin

section \<open>Values of the host language\<close>

text \<open>
  Python integers are unbounded: they are \<open>int\<close>. Python's \<open>%\<close> is floored, as
  \<open>mod\<close> on \<open>int\<close> is, except that a zero divisor raises ZeroDivisionError where
  HOL returns the dividend; the model tests the divisor first.

  Every exception the code under \<open>src/cron_builder.py\<close> can raise is a value. The two
  kinds of error of the specification (RangeError, StateError) are both \<open>ValueError\<close>
  in the code, told apart by their message. \<open>UnpackError\<close> is the ValueError that
  tuple unpacking (\<open>start, step = self.values\<close>) raises on a tuple that does not have
  two members; its message depends on the interpreter.
\<close>

datatype error = ValueError string | IndexError | ZeroDivisionError | UnpackError

text \<open>\<open>str(n)\<close> for an integer: decimal digits, a minus sign for a negative number.\<close>

definition digit_char :: "nat \<Rightarrow> char" where
  "digit_char d = ''0123456789'' ! (d mod 10)"

fun str_nat :: "nat \<Rightarrow> string" where
  "str_nat n = (if n < 10 then [digit_char n] else str_nat (n div 10) @ [digit_char n])"

declare str_nat.simps [simp del]

definition str_int :: "int \<Rightarrow> string" where
  "str_int i = (if i < 0 then CHR ''-'' # str_nat (nat (- i)) else str_nat (nat i))"

text \<open>\<open>sep.join(xs)\<close>.\<close>

fun join :: "string \<Rightarrow> string list \<Rightarrow> string" where
  "join sep [] = []"
| "join sep [x] = x"
| "join sep (x # y # ys) = x @ sep @ join sep (y # ys)"

section \<open>Weekday and Month\<close>

text \<open>
  The two \<open>IntEnum\<close> classes. The short names (\<open>SUN\<close>, \<open>JAN\<close>, ...) are aliases of the
  same members, so they are abbreviations here.
\<close>

datatype Weekday = SUNDAY | MONDAY | TUESDAY | WEDNESDAY | THURSDAY | FRIDAY | SATURDAY

abbreviation "SUN \<equiv> SUNDAY"
abbreviation "MON \<equiv> MONDAY"
abbreviation "TUE \<equiv> TUESDAY"
abbreviation "WED \<equiv> WEDNESDAY"
abbreviation "THU \<equiv> THURSDAY"
abbreviation "FRI \<equiv> FRIDAY"
abbreviation "SAT \<equiv> SATURDAY"

fun Weekday_value :: "Weekday \<Rightarrow> int" where
  "Weekday_value SUNDAY = 0"
| "Weekday_value MONDAY = 1"
| "Weekday_value TUESDAY = 2"
| "Weekday_value WEDNESDAY = 3"
| "Weekday_value THURSDAY = 4"
| "Weekday_value FRIDAY = 5"
| "Weekday_value SATURDAY = 6"

datatype Month = JANUARY | FEBRUARY | MARCH | APRIL | MAY | JUNE | JULY | AUGUST
  | SEPTEMBER | OCTOBER | NOVEMBER | DECEMBER

abbreviation "JAN \<equiv> JANUARY"
abbreviation "FEB \<equiv> FEBRUARY"
abbreviation "MAR \<equiv> MARCH"
abbreviation "APR \<equiv> APRIL"
abbreviation "JUN \<equiv> JUNE"
abbreviation "JUL \<equiv> JULY"
abbreviation "AUG \<equiv> AUGUST"
abbreviation "SEP \<equiv> SEPTEMBER"
abbreviation "OCT \<equiv> OCTOBER"
abbreviation "NOV \<equiv> NOVEMBER"
abbreviation "DEC \<equiv> DECEMBER"

fun Month_value :: "Month \<Rightarrow> int" where
  "Month_value JANUARY = 1"
| "Month_value FEBRUARY = 2"
| "Month_value MARCH = 3"
| "Month_value APRIL = 4"
| "Month_value MAY = 5"
| "Month_value JUNE = 6"
| "Month_value JULY = 7"
| "Month_value AUGUST = 8"
| "Month_value SEPTEMBER = 9"
| "Month_value OCTOBER = 10"
| "Month_value NOVEMBER = 11"
| "Month_value DECEMBER = 12"

text \<open>
  An argument of type \<open>Union[int, Weekday]\<close> or \<open>Union[int, Month]\<close>, and the
  resolution \<open>x.value if isinstance(x, E) else x\<close> the builder applies to it.
\<close>

datatype int_or_Weekday = WInt int | WEnum Weekday

datatype int_or_Month = MInt int | MEnum Month

fun weekday_val :: "int_or_Weekday \<Rightarrow> int" where
  "weekday_val (WInt i) = i"
| "weekday_val (WEnum d) = Weekday_value d"

fun month_val :: "int_or_Month \<Rightarrow> int" where
  "month_val (MInt i) = i"
| "month_val (MEnum m) = Month_value m"

section \<open>CronExpr\<close>

text \<open>
  The frozen dataclass: a kind, which the code compares as a string, and a tuple of
  integers (\<open>values\<close> in the source, \<open>vals\<close> here). Nothing in the class ties
  the length of the tuple to the kind, so \<open>matches\<close> and \<open>to_cron_str\<close> can raise on
  an expression built by hand; every read of the tuple is a branch.
\<close>

record CronExpr =
  kind :: string
  vals :: "int list"

text \<open>
  \<open>CronExpr.matches\<close>. The chained comparison of the range kind reads
  \<open>values[1]\<close> only when \<open>values[0] <= actual\<close>; the \<open>and\<close> of the step kind divides
  only when \<open>actual >= start\<close>.
\<close>

definition CronExpr_matches :: "CronExpr \<Rightarrow> int \<Rightarrow> error + bool" where
  "CronExpr_matches e actual =
    (if kind e = ''any'' then Inr True
     else if kind e = ''value'' then
       (case vals e of
          [] \<Rightarrow> Inl IndexError
        | v0 # _ \<Rightarrow> Inr (actual = v0))
     else if kind e = ''list'' then Inr (List.member (vals e) actual)
     else if kind e = ''range'' then
       (case vals e of
          [] \<Rightarrow> Inl IndexError
        | [v0] \<Rightarrow> (if v0 \<le> actual then Inl IndexError else Inr False)
        | v0 # v1 # _ \<Rightarrow> Inr (v0 \<le> actual \<and> actual \<le> v1))
     else if kind e = ''step'' then
       (case vals e of
          [start, step] \<Rightarrow>
            (if start = - 1 then
               (if step = 0 then Inl ZeroDivisionError else Inr (actual mod step = 0))
             else if actual \<ge> start then
               (if step = 0 then Inl ZeroDivisionError
                else Inr ((actual - start) mod step = 0))
             else Inr False)
        | _ \<Rightarrow> Inl UnpackError)
     else Inr False)"

text \<open>\<open>CronExpr.to_cron_str\<close>.\<close>

definition CronExpr_to_cron_str :: "CronExpr \<Rightarrow> error + string" where
  "CronExpr_to_cron_str e =
    (if kind e = ''any'' then Inr ''*''
     else if kind e = ''value'' then
       (case vals e of
          [] \<Rightarrow> Inl IndexError
        | v0 # _ \<Rightarrow> Inr (str_int v0))
     else if kind e = ''list'' then Inr (join '','' (map str_int (vals e)))
     else if kind e = ''range'' then
       (case vals e of
          v0 # v1 # _ \<Rightarrow> Inr (str_int v0 @ ''-'' @ str_int v1)
        | _ \<Rightarrow> Inl IndexError)
     else if kind e = ''step'' then
       (case vals e of
          [start, step] \<Rightarrow>
            (if start = - 1 then Inr (''*/'' @ str_int step)
             else Inr (str_int start @ ''/'' @ str_int step))
        | _ \<Rightarrow> Inl UnpackError)
     else Inr ''*'')"

section \<open>The store\<close>

text \<open>
  Fields and builders are objects: a mutable builder changes its fields in place, and
  an immutable builder shares the fields it did not change with the builder it was
  copied from. So objects live in a store, a builder holds the addresses of its five
  fields, and every method takes the store and returns it. A method that raises
  returns the store as the exception leaves it. \<open>next_addr\<close> is the first address
  never handed out; \<open>warnings\<close> is the list of messages passed to \<open>warnings.warn\<close>
  (all of category UserWarning; under the interpreter's default filter a warning is
  reported and execution goes on).
\<close>

type_synonym ref = nat

record CronField =
  min_val :: int
  max_val :: int
  name :: string
  immutable :: bool
  expr :: CronExpr

record CronBuilder =
  immutable :: bool
  minute :: ref
  hour :: ref
  day_of_month :: ref
  month :: ref
  day_of_week :: ref
  conjunction :: "(string \<times> int) option"

record heap =
  field_objs :: "ref \<Rightarrow> CronField"
  builder_objs :: "ref \<Rightarrow> CronBuilder"
  next_addr :: ref
  warnings :: "string list"

type_synonym 'a result = "(error + 'a) \<times> heap"

text \<open>Sequencing of two calls: an exception of the first ends the computation.\<close>

definition bind :: "'a result \<Rightarrow> ('a \<Rightarrow> heap \<Rightarrow> 'b result) \<Rightarrow> 'b result" where
  "bind m k = (case m of (Inl e, h) \<Rightarrow> (Inl e, h) | (Inr x, h) \<Rightarrow> k x h)"

definition set_expr :: "ref \<Rightarrow> CronExpr \<Rightarrow> heap \<Rightarrow> heap" where
  "set_expr r e h = h\<lparr>field_objs := (field_objs h)(r := (field_objs h r)\<lparr>expr := e\<rparr>)\<rparr>"

section \<open>CronField\<close>

text \<open>\<open>CronField.__init__\<close>: a new object whose expression is the wildcard.\<close>

definition CronField_init :: "int \<Rightarrow> int \<Rightarrow> string \<Rightarrow> bool \<Rightarrow> heap \<Rightarrow> ref \<times> heap" where
  "CronField_init mn mx nm imm h =
    (let r = next_addr h in
     (r, h\<lparr>field_objs := (field_objs h)
              (r := \<lparr>min_val = mn, max_val = mx, name = nm, immutable = imm,
                     expr = \<lparr>kind = ''any'', vals = []\<rparr>\<rparr>),
            next_addr := Suc r\<rparr>))"

text \<open>\<open>CronField._validate_value\<close>.\<close>

definition validate_value :: "CronField \<Rightarrow> int \<Rightarrow> error + unit" where
  "validate_value f val =
    (if \<not> (min_val f \<le> val \<and> val \<le> max_val f) then
       Inl (ValueError (name f @ '' must be between '' @ str_int (min_val f) @ '' and ''
              @ str_int (max_val f) @ '', got '' @ str_int val))
     else Inr ())"

text \<open>\<open>CronField._warn_overwrite\<close>: the message renders both expressions.\<close>

definition warn_overwrite :: "ref \<Rightarrow> CronExpr \<Rightarrow> heap \<Rightarrow> unit result" where
  "warn_overwrite self new_expr h =
    (let f = field_objs h self in
     if kind (expr f) \<noteq> ''any'' then
       (case CronExpr_to_cron_str (expr f) of
          Inl e \<Rightarrow> (Inl e, h)
        | Inr old \<Rightarrow>
            (case CronExpr_to_cron_str new_expr of
               Inl e \<Rightarrow> (Inl e, h)
             | Inr new \<Rightarrow>
                 (Inr (), h\<lparr>warnings := warnings h @
                    [name f @ '' field overwritten: '' @ [CHR 0x27] @ old @ [CHR 0x27]
                       @ '' -> '' @ [CHR 0x27] @ new @ [CHR 0x27]]\<rparr>)))
     else (Inr (), h))"

text \<open>\<open>CronField._apply\<close>.\<close>

definition CronField_apply :: "ref \<Rightarrow> CronExpr \<Rightarrow> heap \<Rightarrow> ref result" where
  "CronField_apply self e h =
    (let f = field_objs h self in
     if CronField.immutable f then
       (case CronField_init (min_val f) (max_val f) (name f) (CronField.immutable f) h of
          (new_field, h1) \<Rightarrow> (Inr new_field, set_expr new_field e h1))
     else
       bind (warn_overwrite self e h) (\<lambda>_ h1. (Inr self, set_expr self e h1)))"

text \<open>\<open>CronField.set_value\<close>.\<close>

definition CronField_set_value :: "ref \<Rightarrow> int \<Rightarrow> heap \<Rightarrow> ref result" where
  "CronField_set_value self val h =
    (case validate_value (field_objs h self) val of
       Inl e \<Rightarrow> (Inl e, h)
     | Inr _ \<Rightarrow> CronField_apply self \<lparr>kind = ''value'', vals = [val]\<rparr> h)"

text \<open>The loop of \<open>CronField.set_values\<close>: the first value out of range raises.\<close>

fun validate_values :: "CronField \<Rightarrow> int list \<Rightarrow> error + unit" where
  "validate_values f [] = Inr ()"
| "validate_values f (val # rest) =
    (case validate_value f val of
       Inl e \<Rightarrow> Inl e
     | Inr _ \<Rightarrow> validate_values f rest)"

definition CronField_set_values :: "ref \<Rightarrow> int list \<Rightarrow> heap \<Rightarrow> ref result" where
  "CronField_set_values self vs h =
    (case validate_values (field_objs h self) vs of
       Inl e \<Rightarrow> (Inl e, h)
     | Inr _ \<Rightarrow> CronField_apply self \<lparr>kind = ''list'', vals = vs\<rparr> h)"

text \<open>\<open>CronField.set_range\<close>.\<close>

definition CronField_set_range :: "ref \<Rightarrow> int \<Rightarrow> int \<Rightarrow> heap \<Rightarrow> ref result" where
  "CronField_set_range self start end_v h =
    (case validate_value (field_objs h self) start of
       Inl e \<Rightarrow> (Inl e, h)
     | Inr _ \<Rightarrow>
        (case validate_value (field_objs h self) end_v of
           Inl e \<Rightarrow> (Inl e, h)
         | Inr _ \<Rightarrow>
            if start > end_v then
              (Inl (ValueError (''Range start ('' @ str_int start @ '') must be <= end (''
                      @ str_int end_v @ '')'')), h)
            else CronField_apply self \<lparr>kind = ''range'', vals = [start, end_v]\<rparr> h))"

text \<open>
  \<open>CronField.set_interval\<close>. The parameter \<open>start\<close> has the default \<open>-1\<close>, which the
  docstring reserves for the wildcard: a call that leaves \<open>start\<close> out is the call with
  \<open>start = -1\<close>.
\<close>

definition CronField_set_interval :: "ref \<Rightarrow> int \<Rightarrow> int \<Rightarrow> heap \<Rightarrow> ref result" where
  "CronField_set_interval self interval start h =
    (if interval \<le> 0 then
       (Inl (ValueError (''Interval must be positive, got '' @ str_int interval)), h)
     else
       (case (if start \<noteq> - 1 then validate_value (field_objs h self) start else Inr ()) of
          Inl e \<Rightarrow> (Inl e, h)
        | Inr _ \<Rightarrow> CronField_apply self \<lparr>kind = ''step'', vals = [start, interval]\<rparr> h))"

text \<open>\<open>CronField.set_any\<close>, \<open>CronField.matches\<close> and \<open>CronField.__str__\<close>.\<close>

definition CronField_set_any :: "ref \<Rightarrow> heap \<Rightarrow> ref result" where
  "CronField_set_any self h = CronField_apply self \<lparr>kind = ''any'', vals = []\<rparr> h"

definition CronField_matches :: "heap \<Rightarrow> ref \<Rightarrow> int \<Rightarrow> error + bool" where
  "CronField_matches h self actual = CronExpr_matches (expr (field_objs h self)) actual"

definition CronField_str :: "heap \<Rightarrow> ref \<Rightarrow> error + string" where
  "CronField_str h self = CronExpr_to_cron_str (expr (field_objs h self))"

section \<open>Timestamps\<close>

text \<open>
  \<open>datetime\<close> belongs to Python's standard library, not to the repository. The record
  holds the attributes of a naive timestamp; \<open>datetime_weekday\<close> is the library's
  \<open>weekday()\<close>, which its documentation defines as "Monday is 0 and Sunday is 6" and
  its implementation computes from the proleptic Gregorian ordinal of the date.
  \<open>valid_datetime\<close> is the check of the constructor: no other \<open>datetime\<close> exists.
\<close>

record datetime =
  dt_year :: int
  dt_month :: int
  dt_day :: int
  dt_hour :: int
  dt_minute :: int
  dt_second :: int
  dt_microsecond :: int

definition is_leap :: "int \<Rightarrow> bool" where
  "is_leap y = (y mod 4 = 0 \<and> (y mod 100 \<noteq> 0 \<or> y mod 400 = 0))"


definition days_before_year :: "int \<Rightarrow> int" where
  "days_before_year year =
    (let y = year - 1 in y * 365 + y div 4 - y div 100 + y div 400)"

definition days_before_month :: "int \<Rightarrow> int \<Rightarrow> int" where
  "days_before_month y m =
    [0, 31, 59, 90, 120, 151, 181, 212, 243, 273, 304, 334] ! nat ((m - 1) mod 12)
      + (if m > 2 \<and> is_leap y then 1 else 0)"

definition toordinal :: "datetime \<Rightarrow> int" where
  "toordinal dt = days_before_year (dt_year dt) + days_before_month (dt_year dt) (dt_month dt)
     + dt_day dt"

definition datetime_weekday :: "datetime \<Rightarrow> int" where
  "datetime_weekday dt = (toordinal dt + 6) mod 7"


text \<open>\<open>datetime(y, m, d)\<close>: midnight of that date.\<close>

definition date_at :: "int \<Rightarrow> int \<Rightarrow> int \<Rightarrow> datetime" where
  "date_at y m d = \<lparr>dt_year = y, dt_month = m, dt_day = d, dt_hour = 0, dt_minute = 0,
     dt_second = 0, dt_microsecond = 0\<rparr>"

text \<open>The name of the day that the library's \<open>weekday()\<close> number stands for.\<close>

definition dayname :: "int \<Rightarrow> Weekday" where
  "dayname w = [MONDAY, TUESDAY, WEDNESDAY, THURSDAY, FRIDAY, SATURDAY, SUNDAY] ! nat (w mod 7)"

section \<open>CronBuilder\<close>

text \<open>\<open>CronBuilder.__init__\<close>: five new fields, then the builder that holds them.\<close>

definition CronBuilder_init :: "bool \<Rightarrow> heap \<Rightarrow> ref \<times> heap" where
  "CronBuilder_init imm h =
    (case CronField_init 0 59 ''minute'' imm h of (mi, h1) \<Rightarrow>
     case CronField_init 0 23 ''hour'' imm h1 of (ho, h2) \<Rightarrow>
     case CronField_init 1 31 ''day_of_month'' imm h2 of (dm, h3) \<Rightarrow>
     case CronField_init 1 12 ''month'' imm h3 of (mo, h4) \<Rightarrow>
     case CronField_init 0 6 ''day_of_week'' imm h4 of (dw, h5) \<Rightarrow>
       (let self = next_addr h5 in
        (self, h5\<lparr>builder_objs := (builder_objs h5)
                     (self := \<lparr>immutable = imm, minute = mi, hour = ho, day_of_month = dm,
                               month = mo, day_of_week = dw, conjunction = None\<rparr>),
                   next_addr := Suc self\<rparr>)))"

text \<open>
  The keyword arguments of \<open>_copy_with\<close>. Every call in the class passes keys among
  these six; a key that is absent is \<open>None\<close>.
\<close>

record kwargs =
  kw_minute :: "ref option"
  kw_hour :: "ref option"
  kw_day_of_month :: "ref option"
  kw_month :: "ref option"
  kw_day_of_week :: "ref option"
  kw_conjunction :: "(string \<times> int) option"

definition no_kwargs :: kwargs where
  "no_kwargs = \<lparr>kw_minute = None, kw_hour = None, kw_day_of_month = None, kw_month = None,
     kw_day_of_week = None, kw_conjunction = None\<rparr>"

text \<open>\<open>fields.get(key, default)\<close>.\<close>

definition kw_get :: "'a option \<Rightarrow> 'a \<Rightarrow> 'a" where
  "kw_get entry dflt = (case entry of Some v \<Rightarrow> v | None \<Rightarrow> dflt)"

text \<open>The loop \<open>for name, field in fields.items(): setattr(self, name, field)\<close>.\<close>

definition setattrs :: "CronBuilder \<Rightarrow> kwargs \<Rightarrow> CronBuilder" where
  "setattrs b kws =
    b\<lparr>minute := (case kw_minute kws of Some f \<Rightarrow> f | None \<Rightarrow> minute b),
      hour := (case kw_hour kws of Some f \<Rightarrow> f | None \<Rightarrow> hour b),
      day_of_month := (case kw_day_of_month kws of Some f \<Rightarrow> f | None \<Rightarrow> day_of_month b),
      month := (case kw_month kws of Some f \<Rightarrow> f | None \<Rightarrow> month b),
      day_of_week := (case kw_day_of_week kws of Some f \<Rightarrow> f | None \<Rightarrow> day_of_week b),
      conjunction := (case kw_conjunction kws of Some c \<Rightarrow> Some c | None \<Rightarrow> conjunction b)\<rparr>"

text \<open>
  \<open>CronBuilder._copy_with\<close>. In immutable mode the new builder is made by the
  constructor, with five fields of its own, and then given the fields of the call or
  of the receiver.
\<close>

definition CronBuilder_copy_with :: "ref \<Rightarrow> kwargs \<Rightarrow> heap \<Rightarrow> ref result" where
  "CronBuilder_copy_with self kws h =
    (if \<not> CronBuilder.immutable (builder_objs h self) then
       (Inr self, h\<lparr>builder_objs := (builder_objs h)
                      (self := setattrs (builder_objs h self) kws)\<rparr>)
     else
       (case CronBuilder_init True h of
          (new, h1) \<Rightarrow>
            (let b = builder_objs h1 self;
                 nb = (builder_objs h1 new)
                   \<lparr>minute := kw_get (kw_minute kws) (minute b),
                    hour := kw_get (kw_hour kws) (hour b),
                    day_of_month := kw_get (kw_day_of_month kws) (day_of_month b),
                    month := kw_get (kw_month kws) (month b),
                    day_of_week := kw_get (kw_day_of_week kws) (day_of_week b),
                    conjunction :=
                      (case kw_conjunction kws of Some c \<Rightarrow> Some c
                       | None \<Rightarrow> conjunction b)\<rparr>
             in (Inr new, h1\<lparr>builder_objs := (builder_objs h1)(new := nb)\<rparr>))))"

subsection \<open>Setters of one field\<close>

definition CronBuilder_at_minute :: "ref \<Rightarrow> int \<Rightarrow> heap \<Rightarrow> ref result" where
  "CronBuilder_at_minute self m h =
    bind (CronField_set_value (minute (builder_objs h self)) m h)
      (\<lambda>f. CronBuilder_copy_with self (no_kwargs\<lparr>kw_minute := Some f\<rparr>))"

definition CronBuilder_at_minutes :: "ref \<Rightarrow> int list \<Rightarrow> heap \<Rightarrow> ref result" where
  "CronBuilder_at_minutes self ms h =
    bind (CronField_set_values (minute (builder_objs h self)) ms h)
      (\<lambda>f. CronBuilder_copy_with self (no_kwargs\<lparr>kw_minute := Some f\<rparr>))"

definition CronBuilder_every_minutes :: "ref \<Rightarrow> int \<Rightarrow> heap \<Rightarrow> ref result" where
  "CronBuilder_every_minutes self interval h =
    bind (CronField_set_interval (minute (builder_objs h self)) interval (- 1) h)
      (\<lambda>f. CronBuilder_copy_with self (no_kwargs\<lparr>kw_minute := Some f\<rparr>))"

definition CronBuilder_minute_range :: "ref \<Rightarrow> int \<Rightarrow> int \<Rightarrow> heap \<Rightarrow> ref result" where
  "CronBuilder_minute_range self start end_v h =
    bind (CronField_set_range (minute (builder_objs h self)) start end_v h)
      (\<lambda>f. CronBuilder_copy_with self (no_kwargs\<lparr>kw_minute := Some f\<rparr>))"

definition CronBuilder_at_hour :: "ref \<Rightarrow> int \<Rightarrow> heap \<Rightarrow> ref result" where
  "CronBuilder_at_hour self hr h =
    bind (CronField_set_value (hour (builder_objs h self)) hr h)
      (\<lambda>f. CronBuilder_copy_with self (no_kwargs\<lparr>kw_hour := Some f\<rparr>))"

definition CronBuilder_at_hours :: "ref \<Rightarrow> int list \<Rightarrow> heap \<Rightarrow> ref result" where
  "CronBuilder_at_hours self hrs h =
    bind (CronField_set_values (hour (builder_objs h self)) hrs h)
      (\<lambda>f. CronBuilder_copy_with self (no_kwargs\<lparr>kw_hour := Some f\<rparr>))"

definition CronBuilder_every_hours :: "ref \<Rightarrow> int \<Rightarrow> heap \<Rightarrow> ref result" where
  "CronBuilder_every_hours self interval h =
    bind (CronField_set_interval (hour (builder_objs h self)) interval (- 1) h)
      (\<lambda>f. CronBuilder_copy_with self (no_kwargs\<lparr>kw_hour := Some f\<rparr>))"

definition CronBuilder_hour_range :: "ref \<Rightarrow> int \<Rightarrow> int \<Rightarrow> heap \<Rightarrow> ref result" where
  "CronBuilder_hour_range self start end_v h =
    bind (CronField_set_range (hour (builder_objs h self)) start end_v h)
      (\<lambda>f. CronBuilder_copy_with self (no_kwargs\<lparr>kw_hour := Some f\<rparr>))"

definition CronBuilder_on_dom :: "ref \<Rightarrow> int \<Rightarrow> heap \<Rightarrow> ref result" where
  "CronBuilder_on_dom self day h =
    bind (CronField_set_value (day_of_month (builder_objs h self)) day h)
      (\<lambda>f. CronBuilder_copy_with self (no_kwargs\<lparr>kw_day_of_month := Some f\<rparr>))"

definition CronBuilder_on_doms :: "ref \<Rightarrow> int list \<Rightarrow> heap \<Rightarrow> ref result" where
  "CronBuilder_on_doms self days h =
    bind (CronField_set_values (day_of_month (builder_objs h self)) days h)
      (\<lambda>f. CronBuilder_copy_with self (no_kwargs\<lparr>kw_day_of_month := Some f\<rparr>))"

definition CronBuilder_dom_range :: "ref \<Rightarrow> int \<Rightarrow> int \<Rightarrow> heap \<Rightarrow> ref result" where
  "CronBuilder_dom_range self start end_v h =
    bind (CronField_set_range (day_of_month (builder_objs h self)) start end_v h)
      (\<lambda>f. CronBuilder_copy_with self (no_kwargs\<lparr>kw_day_of_month := Some f\<rparr>))"

abbreviation "CronBuilder_on_day_of_month \<equiv> CronBuilder_on_dom"
abbreviation "CronBuilder_on_days_of_month \<equiv> CronBuilder_on_doms"
abbreviation "CronBuilder_day_of_month_range \<equiv> CronBuilder_dom_range"

definition CronBuilder_in_month :: "ref \<Rightarrow> int_or_Month \<Rightarrow> heap \<Rightarrow> ref result" where
  "CronBuilder_in_month self mth h =
    bind (CronField_set_value (month (builder_objs h self)) (month_val mth) h)
      (\<lambda>f. CronBuilder_copy_with self (no_kwargs\<lparr>kw_month := Some f\<rparr>))"

definition CronBuilder_in_months :: "ref \<Rightarrow> int_or_Month list \<Rightarrow> heap \<Rightarrow> ref result" where
  "CronBuilder_in_months self mths h =
    bind (CronField_set_values (month (builder_objs h self)) (map month_val mths) h)
      (\<lambda>f. CronBuilder_copy_with self (no_kwargs\<lparr>kw_month := Some f\<rparr>))"

definition CronBuilder_month_range ::
    "ref \<Rightarrow> int_or_Month \<Rightarrow> int_or_Month \<Rightarrow> heap \<Rightarrow> ref result" where
  "CronBuilder_month_range self start end_v h =
    bind (CronField_set_range (month (builder_objs h self)) (month_val start) (month_val end_v) h)
      (\<lambda>f. CronBuilder_copy_with self (no_kwargs\<lparr>kw_month := Some f\<rparr>))"

definition CronBuilder_on_dow :: "ref \<Rightarrow> int_or_Weekday \<Rightarrow> heap \<Rightarrow> ref result" where
  "CronBuilder_on_dow self day h =
    bind (CronField_set_value (day_of_week (builder_objs h self)) (weekday_val day) h)
      (\<lambda>f. CronBuilder_copy_with self (no_kwargs\<lparr>kw_day_of_week := Some f\<rparr>))"

definition CronBuilder_on_dows :: "ref \<Rightarrow> int_or_Weekday list \<Rightarrow> heap \<Rightarrow> ref result" where
  "CronBuilder_on_dows self days h =
    bind (CronField_set_values (day_of_week (builder_objs h self)) (map weekday_val days) h)
      (\<lambda>f. CronBuilder_copy_with self (no_kwargs\<lparr>kw_day_of_week := Some f\<rparr>))"

definition CronBuilder_on_weekdays :: "ref \<Rightarrow> heap \<Rightarrow> ref result" where
  "CronBuilder_on_weekdays self h =
    bind (CronField_set_range (day_of_week (builder_objs h self)) 1 5 h)
      (\<lambda>f. CronBuilder_copy_with self (no_kwargs\<lparr>kw_day_of_week := Some f\<rparr>))"

definition CronBuilder_on_weekends :: "ref \<Rightarrow> heap \<Rightarrow> ref result" where
  "CronBuilder_on_weekends self h =
    bind (CronField_set_values (day_of_week (builder_objs h self)) [0, 6] h)
      (\<lambda>f. CronBuilder_copy_with self (no_kwargs\<lparr>kw_day_of_week := Some f\<rparr>))"

definition CronBuilder_dow_range ::
    "ref \<Rightarrow> int_or_Weekday \<Rightarrow> int_or_Weekday \<Rightarrow> heap \<Rightarrow> ref result" where
  "CronBuilder_dow_range self start end_v h =
    bind (CronField_set_range (day_of_week (builder_objs h self))
            (weekday_val start) (weekday_val end_v) h)
      (\<lambda>f. CronBuilder_copy_with self (no_kwargs\<lparr>kw_day_of_week := Some f\<rparr>))"

abbreviation "CronBuilder_on_day \<equiv> CronBuilder_on_dow"
abbreviation "CronBuilder_on_days \<equiv> CronBuilder_on_dows"
abbreviation "CronBuilder_day_of_week_range \<equiv> CronBuilder_dow_range"

subsection \<open>Combinators\<close>

text \<open>
  Each is a chain of setters: the next call is made on the builder the previous one
  returned. The defaults of the parameters are written at the call.
\<close>

definition CronBuilder_at :: "ref \<Rightarrow> int \<Rightarrow> int \<Rightarrow> heap \<Rightarrow> ref result" where
  "CronBuilder_at self hr m h =
    bind (CronBuilder_at_hour self hr h) (\<lambda>result. CronBuilder_at_minute result m)"

definition CronBuilder_hourly :: "ref \<Rightarrow> int \<Rightarrow> heap \<Rightarrow> ref result" where
  "CronBuilder_hourly self m h = CronBuilder_at_minute self m h"

definition CronBuilder_daily :: "ref \<Rightarrow> int \<Rightarrow> int \<Rightarrow> heap \<Rightarrow> ref result" where
  "CronBuilder_daily self hr m h = CronBuilder_at self hr m h"

definition CronBuilder_weekly :: "ref \<Rightarrow> int_or_Weekday \<Rightarrow> int \<Rightarrow> int \<Rightarrow> heap \<Rightarrow> ref result" where
  "CronBuilder_weekly self day hr m h =
    bind (CronBuilder_at self hr m h) (\<lambda>b. CronBuilder_on_dow b day)"

definition CronBuilder_monthly :: "ref \<Rightarrow> int \<Rightarrow> int \<Rightarrow> int \<Rightarrow> heap \<Rightarrow> ref result" where
  "CronBuilder_monthly self day hr m h =
    bind (CronBuilder_at self hr m h) (\<lambda>b. CronBuilder_on_dom b day)"

definition CronBuilder_yearly ::
    "ref \<Rightarrow> int_or_Month \<Rightarrow> int \<Rightarrow> int \<Rightarrow> int \<Rightarrow> heap \<Rightarrow> ref result" where
  "CronBuilder_yearly self mth day hr m h =
    bind (bind (CronBuilder_at self hr m h) (\<lambda>b. CronBuilder_on_dom b day))
      (\<lambda>b. CronBuilder_in_month b mth)"

subsection \<open>Conjunctions\<close>

definition CronBuilder_and_dow :: "ref \<Rightarrow> int_or_Weekday \<Rightarrow> heap \<Rightarrow> ref result" where
  "CronBuilder_and_dow self day h =
    (if kind (expr (field_objs h (day_of_month (builder_objs h self)))) = ''any'' then
       (Inl (ValueError ''Must set day_of_month before calling and_dow()''), h)
     else
       (let day_val = weekday_val day;
            h1 = h\<lparr>warnings := warnings h @
                   [''Conjunction created: DOM AND DOW='' @ str_int day_val @ ''. ''
                      @ ''Cron runs on DOM, use should_run() to validate both conditions.'']\<rparr>
        in CronBuilder_copy_with self (no_kwargs\<lparr>kw_conjunction := Some (''dow'', day_val)\<rparr>) h1))"

definition CronBuilder_and_dom :: "ref \<Rightarrow> int \<Rightarrow> heap \<Rightarrow> ref result" where
  "CronBuilder_and_dom self day h =
    (if kind (expr (field_objs h (day_of_week (builder_objs h self)))) = ''any'' then
       (Inl (ValueError ''Must set day_of_week before calling and_dom()''), h)
     else
       (let h1 = h\<lparr>warnings := warnings h @
                   [''Conjunction created: DOW AND DOM='' @ str_int day @ ''. ''
                      @ ''Cron runs on DOW, use should_run() to validate both conditions.'']\<rparr>
        in CronBuilder_copy_with self (no_kwargs\<lparr>kw_conjunction := Some (''dom'', day)\<rparr>) h1))"

abbreviation "CronBuilder_and_day \<equiv> CronBuilder_and_dow"
abbreviation "CronBuilder_and_day_of_month \<equiv> CronBuilder_and_dom"

subsection \<open>Evaluation and rendering\<close>

text \<open>
  \<open>CronBuilder.should_run\<close>. It reads the store and changes nothing. \<open>now\<close> is what
  \<open>datetime.now()\<close> would return; a \<open>datetime\<close> is never false, so
  \<open>check_time or datetime.now()\<close> is \<open>check_time\<close> whenever one is passed.
\<close>

definition CronBuilder_should_run ::
    "heap \<Rightarrow> ref \<Rightarrow> datetime \<Rightarrow> datetime option \<Rightarrow> error + bool" where
  "CronBuilder_should_run h self now check_time =
    (case conjunction (builder_objs h self) of
       None \<Rightarrow> Inr True
     | Some (conj_type, conj_value) \<Rightarrow>
        (let dt = (case check_time of Some t \<Rightarrow> t | None \<Rightarrow> now);
             dt_weekday = (datetime_weekday dt + 1) mod 7
         in if conj_type = ''dow'' then
              (case CronField_matches h (day_of_month (builder_objs h self)) (dt_day dt) of
                 Inl e \<Rightarrow> Inl e
               | Inr m \<Rightarrow> if \<not> m then Inr False else Inr (dt_weekday = conj_value))
            else
              (case CronField_matches h (day_of_week (builder_objs h self)) dt_weekday of
                 Inl e \<Rightarrow> Inl e
               | Inr m \<Rightarrow> if \<not> m then Inr False else Inr (dt_day dt = conj_value))))"

text \<open>\<open>CronBuilder.__call__\<close>.\<close>

definition CronBuilder_call ::
    "heap \<Rightarrow> ref \<Rightarrow> datetime \<Rightarrow> datetime option \<Rightarrow> error + bool" where
  "CronBuilder_call h self now check_time = CronBuilder_should_run h self now check_time"

text \<open>\<open>CronBuilder.__str__\<close>: the f-string renders the five fields from left to right.\<close>

definition CronBuilder_str :: "heap \<Rightarrow> ref \<Rightarrow> error + string" where
  "CronBuilder_str h self =
    (let b = builder_objs h self in
     (case CronField_str h (minute b) of Inl e \<Rightarrow> Inl e | Inr s1 \<Rightarrow>
     (case CronField_str h (hour b) of Inl e \<Rightarrow> Inl e | Inr s2 \<Rightarrow>
     (case CronField_str h (day_of_month b) of Inl e \<Rightarrow> Inl e | Inr s3 \<Rightarrow>
     (case CronField_str h (month b) of Inl e \<Rightarrow> Inl e | Inr s4 \<Rightarrow>
     (case CronField_str h (day_of_week b) of Inl e \<Rightarrow> Inl e | Inr s5 \<Rightarrow>
       Inr (s1 @ '' '' @ s2 @ '' '' @ s3 @ '' '' @ s4 @ '' '' @ s5)))))))"

text \<open>\<open>CronBuilder.__repr__\<close>.\<close>

definition CronBuilder_repr :: "heap \<Rightarrow> ref \<Rightarrow> error + string" where
  "CronBuilder_repr h self =
    (case CronBuilder_str h self of
       Inl e \<Rightarrow> Inl e
     | Inr s \<Rightarrow> Inr (''CronBuilder('' @ [CHR 0x27] @ s @ [CHR 0x27] @ '')''))"

text \<open>A store in which nothing has been created yet.\<close>

definition empty_heap :: heap where
  "empty_heap =
    \<lparr>field_objs = (\<lambda>_. \<lparr>min_val = 0, max_val = 0, name = [], immutable = False,
                         expr = \<lparr>kind = ''any'', vals = []\<rparr>\<rparr>),
     builder_objs = (\<lambda>_. \<lparr>immutable = False, minute = 0, hour = 0, day_of_month = 0,
                           month = 0, day_of_week = 0, conjunction = None\<rparr>),
     next_addr = 0, warnings = []\<rparr>"

section \<open>The calls of the public surface\<close>

text \<open>
  One constructor for each method of \<open>CronBuilder\<close> that returns a builder, so that a
  statement can speak of every call. \<open>invoke\<close> makes the call on a receiver.
\<close>

datatype call =
    At_minute int | At_minutes "int list" | Every_minutes int | Minute_range int int
  | At_hour int | At_hours "int list" | Every_hours int | Hour_range int int
  | At int int
  | On_dom int | On_doms "int list" | Dom_range int int
  | In_month int_or_Month | In_months "int_or_Month list" | Month_range int_or_Month int_or_Month
  | On_dow int_or_Weekday | On_dows "int_or_Weekday list" | On_weekdays | On_weekends
  | Dow_range int_or_Weekday int_or_Weekday
  | Hourly int | Daily int int | Weekly int_or_Weekday int int | Monthly int int int
  | Yearly int_or_Month int int int
  | And_dow int_or_Weekday | And_dom int

fun invoke :: "call \<Rightarrow> ref \<Rightarrow> heap \<Rightarrow> ref result" where
  "invoke (At_minute m) self h = CronBuilder_at_minute self m h"
| "invoke (At_minutes ms) self h = CronBuilder_at_minutes self ms h"
| "invoke (Every_minutes i) self h = CronBuilder_every_minutes self i h"
| "invoke (Minute_range a b) self h = CronBuilder_minute_range self a b h"
| "invoke (At_hour hr) self h = CronBuilder_at_hour self hr h"
| "invoke (At_hours hrs) self h = CronBuilder_at_hours self hrs h"
| "invoke (Every_hours i) self h = CronBuilder_every_hours self i h"
| "invoke (Hour_range a b) self h = CronBuilder_hour_range self a b h"
| "invoke (At hr m) self h = CronBuilder_at self hr m h"
| "invoke (On_dom d) self h = CronBuilder_on_dom self d h"
| "invoke (On_doms ds) self h = CronBuilder_on_doms self ds h"
| "invoke (Dom_range a b) self h = CronBuilder_dom_range self a b h"
| "invoke (In_month mth) self h = CronBuilder_in_month self mth h"
| "invoke (In_months mths) self h = CronBuilder_in_months self mths h"
| "invoke (Month_range a b) self h = CronBuilder_month_range self a b h"
| "invoke (On_dow d) self h = CronBuilder_on_dow self d h"
| "invoke (On_dows ds) self h = CronBuilder_on_dows self ds h"
| "invoke On_weekdays self h = CronBuilder_on_weekdays self h"
| "invoke On_weekends self h = CronBuilder_on_weekends self h"
| "invoke (Dow_range a b) self h = CronBuilder_dow_range self a b h"
| "invoke (Hourly m) self h = CronBuilder_hourly self m h"
| "invoke (Daily hr m) self h = CronBuilder_daily self hr m h"
| "invoke (Weekly d hr m) self h = CronBuilder_weekly self d hr m h"
| "invoke (Monthly d hr m) self h = CronBuilder_monthly self d hr m h"
| "invoke (Yearly mth d hr m) self h = CronBuilder_yearly self mth d hr m h"
| "invoke (And_dow d) self h = CronBuilder_and_dow self d h"
| "invoke (And_dom d) self h = CronBuilder_and_dom self d h"

text \<open>The combinators that make more than one setter call.\<close>

fun chained :: "call \<Rightarrow> bool" where
  "chained (At _ _) = True"
| "chained (Daily _ _) = True"
| "chained (Weekly _ _ _) = True"
| "chained (Monthly _ _ _) = True"
| "chained (Yearly _ _ _ _) = True"
| "chained _ = False"

text \<open>Calls made one after the other on the same receiver, whatever each returns.\<close>

fun invoke_all :: "call list \<Rightarrow> ref \<Rightarrow> heap \<Rightarrow> heap" where
  "invoke_all [] self h = h"
| "invoke_all (c # cs) self h = invoke_all cs self (snd (invoke c self h))"

section \<open>Observations and invariants\<close>

text \<open>
  What can be observed of a builder: the expressions of its five fields, in the order
  minute, hour, day-of-month, month, day-of-week, and its conjunction.
\<close>

definition field_exprs :: "heap \<Rightarrow> ref \<Rightarrow> CronExpr list" where
  "field_exprs h self =
    (let b = builder_objs h self in
     [expr (field_objs h (minute b)), expr (field_objs h (hour b)),
      expr (field_objs h (day_of_month b)), expr (field_objs h (month b)),
      expr (field_objs h (day_of_week b))])"

definition observable_state :: "heap \<Rightarrow> ref \<Rightarrow> CronExpr list \<times> (string \<times> int) option" where
  "observable_state h self = (field_exprs h self, conjunction (builder_objs h self))"

text \<open>
  The expressions the setters make: the tuple has the length its kind reads, and the
  interval of a step is positive.
\<close>

definition wf_expr :: "CronExpr \<Rightarrow> bool" where
  "wf_expr e =
    (if kind e = ''any'' then vals e = []
     else if kind e = ''value'' then length (vals e) = 1
     else if kind e = ''list'' then True
     else if kind e = ''range'' then length (vals e) = 2
     else if kind e = ''step'' then (case vals e of [start, step] \<Rightarrow> 0 < step | _ \<Rightarrow> False)
     else False)"

definition wf_conj :: "(string \<times> int) option \<Rightarrow> bool" where
  "wf_conj c = (case c of None \<Rightarrow> True | Some (anchor, v) \<Rightarrow> anchor = ''dow'' \<or> anchor = ''dom'')"

text \<open>
  The builders that the constructor and the methods produce: the builder and its
  fields have been created, each field has the mutability mode of the builder and holds
  a well-formed expression, and the conjunction has one of the two anchors.
\<close>

definition wf_field :: "heap \<Rightarrow> bool \<Rightarrow> ref \<Rightarrow> bool" where
  "wf_field h imm f =
    (f < next_addr h \<and> CronField.immutable (field_objs h f) = imm
     \<and> wf_expr (expr (field_objs h f)))"

definition wf_builder :: "heap \<Rightarrow> ref \<Rightarrow> bool" where
  "wf_builder h self =
    (let b = builder_objs h self; imm = CronBuilder.immutable b in
     self < next_addr h
     \<and> wf_field h imm (minute b) \<and> wf_field h imm (hour b) \<and> wf_field h imm (day_of_month b)
     \<and> wf_field h imm (month b) \<and> wf_field h imm (day_of_week b)
     \<and> wf_conj (conjunction b))"

text \<open>The second store has every object of the first, unchanged.\<close>

definition extends :: "heap \<Rightarrow> heap \<Rightarrow> bool" where
  "extends h h' =
    (next_addr h \<le> next_addr h'
     \<and> (\<forall>a. a < next_addr h \<longrightarrow>
           field_objs h' a = field_objs h a \<and> builder_objs h' a = builder_objs h a))"

text \<open>What a successful \<open>_apply\<close> of expression \<open>e\<close> to field \<open>self\<close> leaves behind.\<close>

definition applied :: "heap \<Rightarrow> ref \<Rightarrow> CronExpr \<Rightarrow> ref \<Rightarrow> heap \<Rightarrow> bool" where
  "applied h self e r h' =
    (field_objs h' r = (field_objs h self)\<lparr>expr := e\<rparr>
     \<and> builder_objs h' = builder_objs h
     \<and> (\<forall>a. a \<noteq> r \<longrightarrow> field_objs h' a = field_objs h a)
     \<and> (if CronField.immutable (field_objs h self)
        then r = next_addr h \<and> next_addr h' = Suc (next_addr h) \<and> warnings h' = warnings h
        else r = self \<and> next_addr h' = next_addr h))"

section \<open>The reference definition of the evaluation\<close>

text \<open>
  The weekday of the timestamp as the specification wants it: an integer with
  Sunday = 0, that is, the value of the \<open>Weekday\<close> member that names the day.
\<close>

definition cron_weekday :: "datetime \<Rightarrow> int" where
  "cron_weekday ts = Weekday_value (dayname (datetime_weekday ts))"

text \<open>
  The evaluation in the words of the specification: true without a conjunction; with
  the anchor \<open>dow\<close>, the day-of-month field matches the day of the timestamp and the
  weekday is the anchor value; with the anchor \<open>dom\<close>, the day-of-week field matches
  the weekday and the day of the timestamp is the anchor value.
\<close>

definition should_run_ref :: "heap \<Rightarrow> ref \<Rightarrow> datetime \<Rightarrow> bool" where
  "should_run_ref h self ts =
    (case conjunction (builder_objs h self) of
       None \<Rightarrow> True
     | Some (anchor, v) \<Rightarrow>
        if anchor = ''dow'' then
          CronField_matches h (day_of_month (builder_objs h self)) (dt_day ts) = Inr True
          \<and> cron_weekday ts = v
        else if anchor = ''dom'' then
          CronField_matches h (day_of_week (builder_objs h self)) (cron_weekday ts) = Inr True
          \<and> dt_day ts = v
        else False)"


text \<open>
  Each setter of a field either raises and leaves the store alone, or applies a
  well-formed expression.
\<close>

definition field_op_ok :: "heap \<Rightarrow> ref \<Rightarrow> ref result \<Rightarrow> bool" where
  "field_op_ok h f m =
    ((\<forall>err h'. m = (Inl err, h') \<longrightarrow> h' = h)
     \<and> (\<forall>r h'. m = (Inr r, h') \<longrightarrow> (\<exists>e. wf_expr e \<and> applied h f e r h')))"

text \<open>The object that \<open>CronField.__init__\<close> makes.\<close>

definition new_field :: "int \<Rightarrow> int \<Rightarrow> string \<Rightarrow> bool \<Rightarrow> CronField" where
  "new_field mn mx nm imm = \<lparr>min_val = mn, max_val = mx, name = nm, immutable = imm,
     expr = \<lparr>kind = ''any'', vals = []\<rparr>\<rparr>"

text \<open>The field addresses among the keyword arguments.\<close>

definition kw_refs :: "kwargs \<Rightarrow> ref set" where
  "kw_refs kws =
    set_option (kw_minute kws) \<union> set_option (kw_hour kws) \<union> set_option (kw_day_of_month kws)
      \<union> set_option (kw_month kws) \<union> set_option (kw_day_of_week kws)"

text \<open>
  What every call on a well-formed builder does: in immutable mode the store is only
  extended; the receiver is well formed afterwards, also when the call raises; a builder
  that is returned is well formed and has the mode of the receiver, and it is a new object
  in immutable mode, the receiver itself in mutable mode.
\<close>

definition step_ok :: "heap \<Rightarrow> ref \<Rightarrow> ref result \<Rightarrow> bool" where
  "step_ok h self m =
    ((CronBuilder.immutable (builder_objs h self) \<longrightarrow> extends h (snd m))
     \<and> wf_builder (snd m) self
     \<and> (\<forall>b'. fst m = Inr b' \<longrightarrow>
           wf_builder (snd m) b'
           \<and> CronBuilder.immutable (builder_objs (snd m) b')
               = CronBuilder.immutable (builder_objs h self)
           \<and> (if CronBuilder.immutable (builder_objs h self) then next_addr h \<le> b'
              else b' = self)))"

section \<open>Example stores\<close>

text \<open>A store that holds one mutable minute field, at address 0.\<close>

definition minute_field_heap :: heap where
  "minute_field_heap = snd (CronField_init 0 59 ''minute'' False empty_heap)"


text \<open>
  A new builder in each mode, made in the empty store: its fields are at the addresses
  0 to 4 and the builder itself is at address 5.
\<close>

definition mutable_start :: heap where
  "mutable_start = snd (CronBuilder_init False empty_heap)"

definition immutable_start :: heap where
  "immutable_start = snd (CronBuilder_init True empty_heap)"

text \<open>
  The mutable builder after \<open>dom_range(1, 7).and_dow(Weekday.MONDAY)\<close>, the "first Monday
  of the month", and after \<open>at(9, 30).dom_range(1, 7).and_dow(Weekday.MONDAY)\<close>.
\<close>

definition first_monday :: heap where
  "first_monday =
    snd (bind (CronBuilder_dom_range 5 1 7 mutable_start)
           (\<lambda>b. CronBuilder_and_dow b (WEnum MONDAY)))"


definition first_monday_0930 :: heap where
  "first_monday_0930 =
    snd (bind (bind (CronBuilder_at 5 9 30 mutable_start) (\<lambda>b. CronBuilder_dom_range b 1 7))
           (\<lambda>b. CronBuilder_and_dow b (WEnum MONDAY)))"


section \<open>Properties of the model\<close>

subsection \<open>Expressions\<close>


lemma wf_expr_matches: "wf_expr e \<Longrightarrow> \<exists>m. CronExpr_matches e x = Inr m"
  unfolding wf_expr_def CronExpr_matches_def
  by (auto split: if_splits list.splits)

lemma wf_expr_made [simp]:
  "wf_expr \<lparr>kind = ''any'', vals = []\<rparr>"
  "wf_expr \<lparr>kind = ''value'', vals = [v]\<rparr>"
  "wf_expr \<lparr>kind = ''list'', vals = vs\<rparr>"
  "wf_expr \<lparr>kind = ''range'', vals = [lo, hi]\<rparr>"
  "0 < interval \<Longrightarrow> wf_expr \<lparr>kind = ''step'', vals = [start, interval]\<rparr>"
  by (simp_all add: wf_expr_def)

lemma matches_range [simp]:
  "CronExpr_matches \<lparr>kind = ''range'', vals = [lo, hi]\<rparr> x = Inr (lo \<le> x \<and> x \<le> hi)"
  by (simp add: CronExpr_matches_def)



subsection \<open>Sequencing\<close>

lemma bind_Inr [simp]: "bind (Inr x, h) k = k x h"
  by (simp add: bind_def)

lemma bind_Inl [simp]: "bind (Inl e, h) k = (Inl e, h)"
  by (simp add: bind_def)

lemma bind_eq_Inl:
  "bind m k = (Inl e, h') \<Longrightarrow>
   m = (Inl e, h') \<or> (\<exists>x h1. m = (Inr x, h1) \<and> k x h1 = (Inl e, h'))"
  by (cases m) (auto simp: bind_def split: sum.splits)

lemma bind_eq_Inr:
  "bind m k = (Inr y, h') \<Longrightarrow> \<exists>x h1. m = (Inr x, h1) \<and> k x h1 = (Inr y, h')"
  by (cases m) (auto simp: bind_def split: sum.splits)

subsection \<open>Fields\<close>


lemma validate_value_Inr: "validate_value f v = Inr u \<Longrightarrow> min_val f \<le> v \<and> v \<le> max_val f"
  by (simp add: validate_value_def split: if_splits)


lemma warn_overwrite_fail: "warn_overwrite self e h = (Inl err, h') \<Longrightarrow> h' = h"
  unfolding warn_overwrite_def Let_def
  by (auto split: if_splits sum.splits)

lemma warn_overwrite_succ:
  "warn_overwrite self e h = (Inr u, h') \<Longrightarrow> \<exists>ws. h' = h\<lparr>warnings := ws\<rparr>"
  unfolding warn_overwrite_def Let_def
  by (auto split: if_splits sum.splits intro: exI [of _ "warnings h"])


lemma CronField_apply_fail: "CronField_apply self e h = (Inl err, h') \<Longrightarrow> h' = h"
  unfolding CronField_apply_def Let_def CronField_init_def bind_def
  by (auto split: if_splits sum.splits prod.splits dest: warn_overwrite_fail)

lemma CronField_apply_succ:
  assumes "CronField_apply self e h = (Inr r, h')"
  shows "applied h self e r h'"
proof (cases "CronField.immutable (field_objs h self)")
  case True
  with assms show ?thesis
    unfolding CronField_apply_def Let_def CronField_init_def applied_def set_expr_def
    by auto
next
  case False
  with assms obtain u h1 where w: "warn_overwrite self e h = (Inr u, h1)"
    and r: "r = self" "h' = set_expr self e h1"
    unfolding CronField_apply_def Let_def bind_def
    by (auto split: sum.splits prod.splits)
  from warn_overwrite_succ [OF w] obtain ws where "h1 = h\<lparr>warnings := ws\<rparr>" by blast
  with r False show ?thesis
    unfolding applied_def set_expr_def by auto
qed



lemma apply_field_op_ok: "wf_expr e \<Longrightarrow> field_op_ok h f (CronField_apply f e h)"
  unfolding field_op_ok_def
  by (blast dest: CronField_apply_fail CronField_apply_succ)

lemma field_op_ok_raise: "field_op_ok h f (Inl e, h)"
  by (simp add: field_op_ok_def)

lemma set_value_ok: "field_op_ok h f (CronField_set_value f v h)"
  unfolding CronField_set_value_def
  by (auto split: sum.splits intro: apply_field_op_ok field_op_ok_raise)

lemma set_values_ok: "field_op_ok h f (CronField_set_values f vs h)"
  unfolding CronField_set_values_def
  by (auto split: sum.splits intro: apply_field_op_ok field_op_ok_raise)

lemma set_range_ok: "field_op_ok h f (CronField_set_range f a b h)"
  unfolding CronField_set_range_def
  by (auto split: sum.splits intro: apply_field_op_ok field_op_ok_raise)

lemma set_interval_ok: "field_op_ok h f (CronField_set_interval f i s h)"
  unfolding CronField_set_interval_def
  by (auto split: sum.splits if_splits intro: apply_field_op_ok field_op_ok_raise)

lemma set_any_ok: "field_op_ok h f (CronField_set_any f h)"
  unfolding CronField_set_any_def
  by (auto intro: apply_field_op_ok)


subsection \<open>Extension of the store\<close>

lemma extends_refl [simp]: "extends h h"
  by (simp add: extends_def)

lemma extends_trans: "extends h1 h2 \<Longrightarrow> extends h2 h3 \<Longrightarrow> extends h1 h3"
  unfolding extends_def by auto

lemma extends_warnings [simp]: "extends h (h\<lparr>warnings := ws\<rparr>)"
  by (simp add: extends_def)

lemma extends_builder: "extends h h' \<Longrightarrow> b < next_addr h \<Longrightarrow> builder_objs h' b = builder_objs h b"
  by (simp add: extends_def)

lemma extends_field: "extends h h' \<Longrightarrow> f < next_addr h \<Longrightarrow> field_objs h' f = field_objs h f"
  by (simp add: extends_def)

lemma extends_next: "extends h h' \<Longrightarrow> next_addr h \<le> next_addr h'"
  by (simp add: extends_def)

lemma wf_field_addr: "wf_field h imm f \<Longrightarrow> f < next_addr h"
  by (simp add: wf_field_def)

lemma wf_field_extends: "wf_field h imm f \<Longrightarrow> extends h h' \<Longrightarrow> wf_field h' imm f"
  unfolding wf_field_def
  by (auto simp: extends_field dest: extends_next)

lemma wf_builder_iff:
  "wf_builder h b \<longleftrightarrow>
     b < next_addr h
     \<and> wf_field h (CronBuilder.immutable (builder_objs h b)) (minute (builder_objs h b))
     \<and> wf_field h (CronBuilder.immutable (builder_objs h b)) (hour (builder_objs h b))
     \<and> wf_field h (CronBuilder.immutable (builder_objs h b)) (day_of_month (builder_objs h b))
     \<and> wf_field h (CronBuilder.immutable (builder_objs h b)) (month (builder_objs h b))
     \<and> wf_field h (CronBuilder.immutable (builder_objs h b)) (day_of_week (builder_objs h b))
     \<and> wf_conj (conjunction (builder_objs h b))"
  by (simp add: wf_builder_def Let_def)

lemma wf_builder_extends:
  assumes "wf_builder h b" and "extends h h'"
  shows "wf_builder h' b"
proof -
  from assms(1) have "b < next_addr h" by (simp add: wf_builder_iff)
  then have b: "builder_objs h' b = builder_objs h b"
    by (rule extends_builder [OF assms(2)])
  from assms(1) have "b < next_addr h'"
    using extends_next [OF assms(2)] by (simp add: wf_builder_iff)
  with assms(1) show ?thesis
    unfolding wf_builder_iff b
    by (simp add: wf_field_extends [OF _ assms(2)])
qed

lemma extends_same:
  assumes "wf_builder h b" and "extends h h'"
  shows "builder_objs h' b = builder_objs h b"
    and "field_objs h' (minute (builder_objs h b)) = field_objs h (minute (builder_objs h b))"
    and "field_objs h' (hour (builder_objs h b)) = field_objs h (hour (builder_objs h b))"
    and "field_objs h' (day_of_month (builder_objs h b))
          = field_objs h (day_of_month (builder_objs h b))"
    and "field_objs h' (month (builder_objs h b)) = field_objs h (month (builder_objs h b))"
    and "field_objs h' (day_of_week (builder_objs h b))
          = field_objs h (day_of_week (builder_objs h b))"
proof -
  from assms(1) have a: "b < next_addr h"
    "minute (builder_objs h b) < next_addr h" "hour (builder_objs h b) < next_addr h"
    "day_of_month (builder_objs h b) < next_addr h" "month (builder_objs h b) < next_addr h"
    "day_of_week (builder_objs h b) < next_addr h"
    by (simp_all add: wf_builder_iff wf_field_def)
  from a(1) show "builder_objs h' b = builder_objs h b"
    by (rule extends_builder [OF assms(2)])
  from a(2) show "field_objs h' (minute (builder_objs h b))
      = field_objs h (minute (builder_objs h b))"
    by (rule extends_field [OF assms(2)])
  from a(3) show "field_objs h' (hour (builder_objs h b)) = field_objs h (hour (builder_objs h b))"
    by (rule extends_field [OF assms(2)])
  from a(4) show "field_objs h' (day_of_month (builder_objs h b))
      = field_objs h (day_of_month (builder_objs h b))"
    by (rule extends_field [OF assms(2)])
  from a(5) show "field_objs h' (month (builder_objs h b))
      = field_objs h (month (builder_objs h b))"
    by (rule extends_field [OF assms(2)])
  from a(6) show "field_objs h' (day_of_week (builder_objs h b))
      = field_objs h (day_of_week (builder_objs h b))"
    by (rule extends_field [OF assms(2)])
qed

lemma observable_extends:
  assumes "wf_builder h b" and "extends h h'"
  shows "observable_state h' b = observable_state h b"
  by (simp add: observable_state_def field_exprs_def extends_same [OF assms])

lemma str_extends:
  assumes "wf_builder h b" and "extends h h'"
  shows "CronBuilder_str h' b = CronBuilder_str h b"
proof -
  note s = extends_same [OF assms]
  have f: "CronField_str h' (minute (builder_objs h b)) = CronField_str h (minute (builder_objs h b))"
    "CronField_str h' (hour (builder_objs h b)) = CronField_str h (hour (builder_objs h b))"
    "CronField_str h' (day_of_month (builder_objs h b))
       = CronField_str h (day_of_month (builder_objs h b))"
    "CronField_str h' (month (builder_objs h b)) = CronField_str h (month (builder_objs h b))"
    "CronField_str h' (day_of_week (builder_objs h b))
       = CronField_str h (day_of_week (builder_objs h b))"
    by (simp_all add: CronField_str_def s)
  show ?thesis
    unfolding CronBuilder_str_def Let_def s(1) f by (rule refl)
qed

lemma wf_field_warnings [simp]: "wf_field (h\<lparr>warnings := ws\<rparr>) imm f = wf_field h imm f"
  by (simp add: wf_field_def)

lemma wf_builder_warnings [simp]: "wf_builder (h\<lparr>warnings := ws\<rparr>) b = wf_builder h b"
  by (simp add: wf_builder_iff)

subsection \<open>The constructor\<close>

lemma CronBuilder_init_eq:
  "CronBuilder_init imm h =
    (Suc (Suc (Suc (Suc (Suc (next_addr h))))),
     h\<lparr>field_objs := (field_objs h)
         (next_addr h := new_field 0 59 ''minute'' imm,
          Suc (next_addr h) := new_field 0 23 ''hour'' imm,
          Suc (Suc (next_addr h)) := new_field 1 31 ''day_of_month'' imm,
          Suc (Suc (Suc (next_addr h))) := new_field 1 12 ''month'' imm,
          Suc (Suc (Suc (Suc (next_addr h)))) := new_field 0 6 ''day_of_week'' imm),
       builder_objs := (builder_objs h)
         (Suc (Suc (Suc (Suc (Suc (next_addr h))))) :=
            \<lparr>immutable = imm, minute = next_addr h, hour = Suc (next_addr h),
             day_of_month = Suc (Suc (next_addr h)), month = Suc (Suc (Suc (next_addr h))),
             day_of_week = Suc (Suc (Suc (Suc (next_addr h)))), conjunction = None\<rparr>),
       next_addr := Suc (Suc (Suc (Suc (Suc (Suc (next_addr h))))))\<rparr>)"
  by (simp add: CronBuilder_init_def CronField_init_def Let_def new_field_def)


lemma wf_field_new [simp]:
  "wf_expr (expr (new_field mn mx nm imm))" "CronField.immutable (new_field mn mx nm imm) = imm"
  by (simp_all add: new_field_def)

lemma CronBuilder_init_extends: "CronBuilder_init imm h = (b, h') \<Longrightarrow> extends h h'"
  by (auto simp add: CronBuilder_init_eq extends_def)

lemma CronBuilder_init_wf: "CronBuilder_init imm h = (b, h') \<Longrightarrow> wf_builder h' b"
  by (auto simp add: CronBuilder_init_eq wf_builder_iff wf_field_def wf_conj_def)

lemma CronBuilder_init_obj:
  "CronBuilder_init imm h = (b, h') \<Longrightarrow>
     next_addr h \<le> b \<and> b < next_addr h'
     \<and> CronBuilder.immutable (builder_objs h' b) = imm
     \<and> conjunction (builder_objs h' b) = None \<and> warnings h' = warnings h"
  by (auto simp add: CronBuilder_init_eq)

lemma CronBuilder_init_exprs:
  "CronBuilder_init imm h = (b, h') \<Longrightarrow>
     field_exprs h' b = replicate 5 \<lparr>kind = ''any'', vals = []\<rparr>"
  by (auto simp add: CronBuilder_init_eq field_exprs_def new_field_def numeral_eq_Suc)

subsection \<open>Copying\<close>

lemma setattrs_immutable [simp]:
  "CronBuilder.immutable (setattrs b kws) = CronBuilder.immutable b"
  by (simp add: setattrs_def)

lemma wf_conj_setattrs:
  "wf_conj (conjunction b) \<Longrightarrow> wf_conj (kw_conjunction kws) \<Longrightarrow>
   wf_conj (conjunction (setattrs b kws))"
  by (auto simp add: setattrs_def wf_conj_def split: option.splits)

lemma wf_field_setattrs:
  assumes "wf_field h imm (minute b)" "wf_field h imm (hour b)" "wf_field h imm (day_of_month b)"
    "wf_field h imm (month b)" "wf_field h imm (day_of_week b)"
    and "\<forall>x \<in> kw_refs kws. wf_field h imm x"
  shows "wf_field h imm (minute (setattrs b kws))" "wf_field h imm (hour (setattrs b kws))"
    "wf_field h imm (day_of_month (setattrs b kws))" "wf_field h imm (month (setattrs b kws))"
    "wf_field h imm (day_of_week (setattrs b kws))"
  using assms by (auto simp add: setattrs_def kw_refs_def split: option.splits)

lemma copy_with_mutable:
  "\<not> CronBuilder.immutable (builder_objs h self) \<Longrightarrow>
   CronBuilder_copy_with self kws h
     = (Inr self, h\<lparr>builder_objs := (builder_objs h)(self := setattrs (builder_objs h self) kws)\<rparr>)"
  by (simp add: CronBuilder_copy_with_def)

lemma copy_with_immutable:
  assumes "CronBuilder.immutable (builder_objs h self)" and "self < next_addr h"
    and "CronBuilder_init True h = (new, h1)"
  shows "CronBuilder_copy_with self kws h
     = (Inr new, h1\<lparr>builder_objs := (builder_objs h1)(new := setattrs (builder_objs h self) kws)\<rparr>)"
proof -
  from CronBuilder_init_extends [OF assms(3)] assms(2)
  have b: "builder_objs h1 self = builder_objs h self"
    by (simp add: extends_builder)
  from assms(3) have n: "builder_objs h1 new =
      \<lparr>immutable = True, minute = next_addr h, hour = Suc (next_addr h),
       day_of_month = Suc (Suc (next_addr h)), month = Suc (Suc (Suc (next_addr h))),
       day_of_week = Suc (Suc (Suc (Suc (next_addr h)))), conjunction = None\<rparr>"
    by (auto simp add: CronBuilder_init_eq)
  have c: "CronBuilder_copy_with self kws h = (Inr new, h1\<lparr>builder_objs := (builder_objs h1)(new :=
     (builder_objs h1 new)
      \<lparr>minute := kw_get (kw_minute kws) (minute (builder_objs h1 self)),
       hour := kw_get (kw_hour kws) (hour (builder_objs h1 self)),
       day_of_month := kw_get (kw_day_of_month kws) (day_of_month (builder_objs h1 self)),
       month := kw_get (kw_month kws) (month (builder_objs h1 self)),
       day_of_week := kw_get (kw_day_of_week kws) (day_of_week (builder_objs h1 self)),
       conjunction := (case kw_conjunction kws of Some c \<Rightarrow> Some c
                       | None \<Rightarrow> conjunction (builder_objs h1 self))\<rparr>)\<rparr>)"
    using assms(1,3) by (simp add: CronBuilder_copy_with_def Let_def)
  have eq: "(builder_objs h1 new)
      \<lparr>minute := kw_get (kw_minute kws) (minute (builder_objs h self)),
       hour := kw_get (kw_hour kws) (hour (builder_objs h self)),
       day_of_month := kw_get (kw_day_of_month kws) (day_of_month (builder_objs h self)),
       month := kw_get (kw_month kws) (month (builder_objs h self)),
       day_of_week := kw_get (kw_day_of_week kws) (day_of_week (builder_objs h self)),
       conjunction := (case kw_conjunction kws of Some c \<Rightarrow> Some c
                       | None \<Rightarrow> conjunction (builder_objs h self))\<rparr>
     = setattrs (builder_objs h self) kws"
    using assms(1) by (simp add: n setattrs_def kw_get_def)
  show ?thesis
    unfolding c b eq by (rule refl)
qed

lemma copy_with_spec:
  assumes wf: "wf_builder h self"
    and kw: "\<forall>x \<in> kw_refs kws. wf_field h (CronBuilder.immutable (builder_objs h self)) x"
    and cj: "wf_conj (kw_conjunction kws)"
  shows "\<exists>b' h'. CronBuilder_copy_with self kws h = (Inr b', h')
          \<and> builder_objs h' b' = setattrs (builder_objs h self) kws
          \<and> wf_builder h' b'
          \<and> (if CronBuilder.immutable (builder_objs h self)
             then extends h h' \<and> next_addr h \<le> b'
             else b' = self \<and> field_objs h' = field_objs h \<and> next_addr h' = next_addr h
                  \<and> warnings h' = warnings h)"
proof (cases "CronBuilder.immutable (builder_objs h self)")
  case False
  let ?h' = "h\<lparr>builder_objs := (builder_objs h)(self := setattrs (builder_objs h self) kws)\<rparr>"
  have f: "\<And>imm x. wf_field ?h' imm x = wf_field h imm x"
    by (simp add: wf_field_def)
  from wf kw cj have "wf_builder ?h' self"
    unfolding wf_builder_iff f
    by (simp add: wf_field_setattrs wf_conj_setattrs)
  with False show ?thesis
    by (simp add: copy_with_mutable)
next
  case True
  obtain new h1 where i: "CronBuilder_init True h = (new, h1)"
    by (cases "CronBuilder_init True h")
  let ?h' = "h1\<lparr>builder_objs := (builder_objs h1)(new := setattrs (builder_objs h self) kws)\<rparr>"
  from wf have s: "self < next_addr h" by (simp add: wf_builder_iff)
  note e = CronBuilder_init_extends [OF i]
  note o = CronBuilder_init_obj [OF i]
  have f: "\<And>imm x. wf_field ?h' imm x = wf_field h1 imm x"
    by (simp add: wf_field_def)
  have e': "extends h ?h'"
    using e o by (auto simp add: extends_def)
  from wf_builder_extends [OF wf e] have w1: "wf_builder h1 self" .
  from extends_builder [OF e s] have b1: "builder_objs h1 self = builder_objs h self" .
  from kw have kw1: "\<forall>x \<in> kw_refs kws. wf_field h1 (CronBuilder.immutable (builder_objs h self)) x"
    by (blast intro: wf_field_extends [OF _ e])
  from w1 kw1 cj o have "wf_builder ?h' new"
    unfolding wf_builder_iff f b1
    by (simp add: wf_field_setattrs wf_conj_setattrs)
  with True e' o show ?thesis
    by (simp add: copy_with_immutable [OF True s i])
qed


subsection \<open>One setter call\<close>

lemma copy_with_Inr: "\<exists>b h'. CronBuilder_copy_with self kws h = (Inr b, h')"
  unfolding CronBuilder_copy_with_def Let_def
  by (simp split: prod.splits)

lemma setter_atomic:
  assumes "field_op_ok h f m"
    and "bind m (\<lambda>r. CronBuilder_copy_with self (K r)) = (Inl e, h')"
  shows "h' = h"
proof -
  from bind_eq_Inl [OF assms(2)]
  have "m = (Inl e, h')"
    using copy_with_Inr by (metis Inl_Inr_False prod.inject)
  with assms(1) show ?thesis by (simp add: field_op_ok_def)
qed

lemma applied_wf:
  assumes a: "applied h f e r h1" and e: "wf_expr e" and f: "wf_field h imm f"
  shows "wf_field h1 imm r"
    and "\<And>g. wf_field h imm g \<Longrightarrow> wf_field h1 imm g"
    and "builder_objs h1 = builder_objs h"
    and "next_addr h \<le> next_addr h1"
    and "imm \<Longrightarrow> extends h h1"
proof -
  from f have i: "CronField.immutable (field_objs h f) = imm" and fa: "f < next_addr h"
    by (simp_all add: wf_field_def)
  from a e i fa show "wf_field h1 imm r"
    by (cases imm) (auto simp add: applied_def wf_field_def)
  from a show "builder_objs h1 = builder_objs h"
    by (simp add: applied_def)
  from a i show "next_addr h \<le> next_addr h1"
    by (cases imm) (auto simp add: applied_def)
  show "wf_field h1 imm g" if g: "wf_field h imm g" for g
  proof (cases "g = r")
    case True
    with \<open>wf_field h1 imm r\<close> show ?thesis by simp
  next
    case False
    with a have "field_objs h1 g = field_objs h g" by (simp add: applied_def)
    with g \<open>next_addr h \<le> next_addr h1\<close> show ?thesis
      by (simp add: wf_field_def)
  qed
  show "extends h h1" if imm
    using a i that by (auto simp add: applied_def extends_def)
qed

lemma step_ok_raise [simp]: "wf_builder h self \<Longrightarrow> step_ok h self (Inl e, h)"
  by (simp add: step_ok_def)

lemma step_ok_copy_with:
  assumes wf: "wf_builder h1 self"
    and kw: "\<forall>x \<in> kw_refs kws. wf_field h1 (CronBuilder.immutable (builder_objs h1 self)) x"
    and cj: "wf_conj (kw_conjunction kws)"
    and b: "builder_objs h1 self = builder_objs h self"
    and n: "next_addr h \<le> next_addr h1"
    and e: "CronBuilder.immutable (builder_objs h self) \<Longrightarrow> extends h h1"
  shows "step_ok h self (CronBuilder_copy_with self kws h1)"
proof -
  from copy_with_spec [OF wf kw cj] obtain b' h'
    where c: "CronBuilder_copy_with self kws h1 = (Inr b', h')"
      and o: "builder_objs h' b' = setattrs (builder_objs h1 self) kws"
      and w: "wf_builder h' b'"
      and m: "if CronBuilder.immutable (builder_objs h1 self)
              then extends h1 h' \<and> next_addr h1 \<le> b' else b' = self"
    by (auto split: if_splits)
  show ?thesis
  proof (cases "CronBuilder.immutable (builder_objs h self)")
    case True
    with m b have "extends h1 h'" "next_addr h1 \<le> b'" by simp_all
    with wf_builder_extends [OF wf] have "wf_builder h' self" by simp
    with \<open>extends h1 h'\<close> \<open>next_addr h1 \<le> b'\<close> e [OF True] n True w o b c show ?thesis
      by (auto simp add: step_ok_def intro: extends_trans)
  next
    case False
    with m b w o c show ?thesis
      by (simp add: step_ok_def)
  qed
qed

lemma setter_step:
  assumes wf: "wf_builder h self"
    and f: "wf_field h (CronBuilder.immutable (builder_objs h self)) f"
    and op: "field_op_ok h f m"
    and K1: "\<And>r. kw_conjunction (K r) = None"
    and K2: "\<And>r. kw_refs (K r) \<subseteq> {r}"
  shows "step_ok h self (bind m (\<lambda>r. CronBuilder_copy_with self (K r)))"
proof (cases m)
  case (Pair res h1)
  show ?thesis
  proof (cases res)
    case (Inl e)
    with Pair op have "h1 = h" by (simp add: field_op_ok_def)
    with Pair Inl wf show ?thesis by simp
  next
    case (Inr r)
    with Pair op obtain e where e: "wf_expr e" and a: "applied h f e r h1"
      by (auto simp add: field_op_ok_def)
    note p = applied_wf [OF a e f]
    from wf have "self < next_addr h1"
      using p(4) by (simp add: wf_builder_iff)
    with wf have w1: "wf_builder h1 self"
      unfolding wf_builder_iff p(3) by (simp add: p(2))
    have kw: "\<forall>x \<in> kw_refs (K r). wf_field h1 (CronBuilder.immutable (builder_objs h1 self)) x"
      using K2 [of r] p(1) by (auto simp add: p(3))
    have "step_ok h self (CronBuilder_copy_with self (K r) h1)"
      by (rule step_ok_copy_with [OF w1 kw _ _ p(4) p(5)]) (simp_all add: K1 wf_conj_def p(3))
    with Pair Inr show ?thesis by simp
  qed
qed

lemma step_ok_bind:
  assumes wf: "wf_builder h self"
    and m: "step_ok h self m"
    and k: "\<And>b h1. wf_builder h1 b \<Longrightarrow> step_ok h1 b (k b h1)"
  shows "step_ok h self (bind m k)"
proof (cases m)
  case (Pair res h1)
  show ?thesis
  proof (cases res)
    case (Inl e)
    with Pair m show ?thesis by (simp add: step_ok_def)
  next
    case (Inr b)
    with Pair m have w: "wf_builder h1 b"
      and i: "CronBuilder.immutable (builder_objs h1 b) = CronBuilder.immutable (builder_objs h self)"
      and e: "CronBuilder.immutable (builder_objs h self) \<Longrightarrow> extends h h1"
      and r: "if CronBuilder.immutable (builder_objs h self) then next_addr h \<le> b else b = self"
      by (simp_all add: step_ok_def)
    from w have bn: "b < next_addr h1" by (simp add: wf_builder_iff)
    from k [OF w] have s: "step_ok h1 b (k b h1)" .
    show ?thesis
    proof (cases "CronBuilder.immutable (builder_objs h self)")
      case True
      from s True i have "extends h1 (snd (k b h1))" by (simp add: step_ok_def)
      with e [OF True] have x: "extends h (snd (k b h1))" by (rule extends_trans)
      moreover from e [OF True] have "next_addr h \<le> next_addr h1" by (rule extends_next)
      moreover from wf_builder_extends [OF wf x] have "wf_builder (snd (k b h1)) self" .
      ultimately show ?thesis
        using s True i Pair Inr by (auto simp add: step_ok_def)
    next
      case False
      with s i r Pair Inr show ?thesis by (auto simp add: step_ok_def)
    qed
  qed
qed

lemma kw_simps [simp]:
  "kw_conjunction (no_kwargs\<lparr>kw_minute := Some r\<rparr>) = None"
  "kw_conjunction (no_kwargs\<lparr>kw_hour := Some r\<rparr>) = None"
  "kw_conjunction (no_kwargs\<lparr>kw_day_of_month := Some r\<rparr>) = None"
  "kw_conjunction (no_kwargs\<lparr>kw_month := Some r\<rparr>) = None"
  "kw_conjunction (no_kwargs\<lparr>kw_day_of_week := Some r\<rparr>) = None"
  "kw_refs (no_kwargs\<lparr>kw_minute := Some r\<rparr>) = {r}"
  "kw_refs (no_kwargs\<lparr>kw_hour := Some r\<rparr>) = {r}"
  "kw_refs (no_kwargs\<lparr>kw_day_of_month := Some r\<rparr>) = {r}"
  "kw_refs (no_kwargs\<lparr>kw_month := Some r\<rparr>) = {r}"
  "kw_refs (no_kwargs\<lparr>kw_day_of_week := Some r\<rparr>) = {r}"
  "kw_refs (no_kwargs\<lparr>kw_conjunction := c\<rparr>) = {}"
  by (simp_all add: no_kwargs_def kw_refs_def)

text \<open>The setters of one field.\<close>

lemma simple_steps:
  assumes wf: "wf_builder h self"
  shows "step_ok h self (CronBuilder_at_minute self m h)"
    and "step_ok h self (CronBuilder_at_minutes self ms h)"
    and "step_ok h self (CronBuilder_every_minutes self i h)"
    and "step_ok h self (CronBuilder_minute_range self a b h)"
    and "step_ok h self (CronBuilder_at_hour self hr h)"
    and "step_ok h self (CronBuilder_at_hours self hrs h)"
    and "step_ok h self (CronBuilder_every_hours self i h)"
    and "step_ok h self (CronBuilder_hour_range self a b h)"
    and "step_ok h self (CronBuilder_on_dom self d h)"
    and "step_ok h self (CronBuilder_on_doms self ds h)"
    and "step_ok h self (CronBuilder_dom_range self a b h)"
    and "step_ok h self (CronBuilder_in_month self mth h)"
    and "step_ok h self (CronBuilder_in_months self mths h)"
    and "step_ok h self (CronBuilder_month_range self ma mb h)"
    and "step_ok h self (CronBuilder_on_dow self wd h)"
    and "step_ok h self (CronBuilder_on_dows self wds h)"
    and "step_ok h self (CronBuilder_on_weekdays self h)"
    and "step_ok h self (CronBuilder_on_weekends self h)"
    and "step_ok h self (CronBuilder_dow_range self wa wb h)"
proof -
  from wf have mi: "wf_field h (CronBuilder.immutable (builder_objs h self)) (minute (builder_objs h self))"
    and ho: "wf_field h (CronBuilder.immutable (builder_objs h self)) (hour (builder_objs h self))"
    and dm: "wf_field h (CronBuilder.immutable (builder_objs h self)) (day_of_month (builder_objs h self))"
    and mo: "wf_field h (CronBuilder.immutable (builder_objs h self)) (month (builder_objs h self))"
    and dw: "wf_field h (CronBuilder.immutable (builder_objs h self)) (day_of_week (builder_objs h self))"
    by (simp_all add: wf_builder_iff)
  show "step_ok h self (CronBuilder_at_minute self m h)"
    unfolding CronBuilder_at_minute_def by (rule setter_step [OF wf mi set_value_ok]) simp_all
  show "step_ok h self (CronBuilder_at_minutes self ms h)"
    unfolding CronBuilder_at_minutes_def by (rule setter_step [OF wf mi set_values_ok]) simp_all
  show "step_ok h self (CronBuilder_every_minutes self i h)"
    unfolding CronBuilder_every_minutes_def by (rule setter_step [OF wf mi set_interval_ok]) simp_all
  show "step_ok h self (CronBuilder_minute_range self a b h)"
    unfolding CronBuilder_minute_range_def by (rule setter_step [OF wf mi set_range_ok]) simp_all
  show "step_ok h self (CronBuilder_at_hour self hr h)"
    unfolding CronBuilder_at_hour_def by (rule setter_step [OF wf ho set_value_ok]) simp_all
  show "step_ok h self (CronBuilder_at_hours self hrs h)"
    unfolding CronBuilder_at_hours_def by (rule setter_step [OF wf ho set_values_ok]) simp_all
  show "step_ok h self (CronBuilder_every_hours self i h)"
    unfolding CronBuilder_every_hours_def by (rule setter_step [OF wf ho set_interval_ok]) simp_all
  show "step_ok h self (CronBuilder_hour_range self a b h)"
    unfolding CronBuilder_hour_range_def by (rule setter_step [OF wf ho set_range_ok]) simp_all
  show "step_ok h self (CronBuilder_on_dom self d h)"
    unfolding CronBuilder_on_dom_def by (rule setter_step [OF wf dm set_value_ok]) simp_all
  show "step_ok h self (CronBuilder_on_doms self ds h)"
    unfolding CronBuilder_on_doms_def by (rule setter_step [OF wf dm set_values_ok]) simp_all
  show "step_ok h self (CronBuilder_dom_range self a b h)"
    unfolding CronBuilder_dom_range_def by (rule setter_step [OF wf dm set_range_ok]) simp_all
  show "step_ok h self (CronBuilder_in_month self mth h)"
    unfolding CronBuilder_in_month_def by (rule setter_step [OF wf mo set_value_ok]) simp_all
  show "step_ok h self (CronBuilder_in_months self mths h)"
    unfolding CronBuilder_in_months_def by (rule setter_step [OF wf mo set_values_ok]) simp_all
  show "step_ok h self (CronBuilder_month_range self ma mb h)"
    unfolding CronBuilder_month_range_def by (rule setter_step [OF wf mo set_range_ok]) simp_all
  show "step_ok h self (CronBuilder_on_dow self wd h)"
    unfolding CronBuilder_on_dow_def by (rule setter_step [OF wf dw set_value_ok]) simp_all
  show "step_ok h self (CronBuilder_on_dows self wds h)"
    unfolding CronBuilder_on_dows_def by (rule setter_step [OF wf dw set_values_ok]) simp_all
  show "step_ok h self (CronBuilder_on_weekdays self h)"
    unfolding CronBuilder_on_weekdays_def by (rule setter_step [OF wf dw set_range_ok]) simp_all
  show "step_ok h self (CronBuilder_on_weekends self h)"
    unfolding CronBuilder_on_weekends_def by (rule setter_step [OF wf dw set_values_ok]) simp_all
  show "step_ok h self (CronBuilder_dow_range self wa wb h)"
    unfolding CronBuilder_dow_range_def by (rule setter_step [OF wf dw set_range_ok]) simp_all
qed

lemma simple_atomic:
  shows "CronBuilder_at_minute self m h = (Inl e, h') \<Longrightarrow> h' = h"
    and "CronBuilder_at_minutes self ms h = (Inl e, h') \<Longrightarrow> h' = h"
    and "CronBuilder_every_minutes self i h = (Inl e, h') \<Longrightarrow> h' = h"
    and "CronBuilder_minute_range self a b h = (Inl e, h') \<Longrightarrow> h' = h"
    and "CronBuilder_at_hour self hr h = (Inl e, h') \<Longrightarrow> h' = h"
    and "CronBuilder_at_hours self hrs h = (Inl e, h') \<Longrightarrow> h' = h"
    and "CronBuilder_every_hours self i h = (Inl e, h') \<Longrightarrow> h' = h"
    and "CronBuilder_hour_range self a b h = (Inl e, h') \<Longrightarrow> h' = h"
    and "CronBuilder_on_dom self d h = (Inl e, h') \<Longrightarrow> h' = h"
    and "CronBuilder_on_doms self ds h = (Inl e, h') \<Longrightarrow> h' = h"
    and "CronBuilder_dom_range self a b h = (Inl e, h') \<Longrightarrow> h' = h"
    and "CronBuilder_in_month self mth h = (Inl e, h') \<Longrightarrow> h' = h"
    and "CronBuilder_in_months self mths h = (Inl e, h') \<Longrightarrow> h' = h"
    and "CronBuilder_month_range self ma mb h = (Inl e, h') \<Longrightarrow> h' = h"
    and "CronBuilder_on_dow self wd h = (Inl e, h') \<Longrightarrow> h' = h"
    and "CronBuilder_on_dows self wds h = (Inl e, h') \<Longrightarrow> h' = h"
    and "CronBuilder_on_weekdays self h = (Inl e, h') \<Longrightarrow> h' = h"
    and "CronBuilder_on_weekends self h = (Inl e, h') \<Longrightarrow> h' = h"
    and "CronBuilder_dow_range self wa wb h = (Inl e, h') \<Longrightarrow> h' = h"
  unfolding CronBuilder_at_minute_def CronBuilder_at_minutes_def CronBuilder_every_minutes_def CronBuilder_minute_range_def CronBuilder_at_hour_def CronBuilder_at_hours_def CronBuilder_every_hours_def CronBuilder_hour_range_def CronBuilder_on_dom_def CronBuilder_on_doms_def CronBuilder_dom_range_def CronBuilder_in_month_def CronBuilder_in_months_def CronBuilder_month_range_def CronBuilder_on_dow_def CronBuilder_on_dows_def CronBuilder_on_weekdays_def CronBuilder_on_weekends_def CronBuilder_dow_range_def
  by (erule setter_atomic [OF set_value_ok] setter_atomic [OF set_values_ok]
        setter_atomic [OF set_range_ok] setter_atomic [OF set_interval_ok])+


subsection \<open>Conjunctions and combinators\<close>

lemma and_dow_eq:
  "CronBuilder_and_dow self d h =
    (if kind (expr (field_objs h (day_of_month (builder_objs h self)))) = ''any''
     then (Inl (ValueError ''Must set day_of_month before calling and_dow()''), h)
     else CronBuilder_copy_with self (no_kwargs\<lparr>kw_conjunction := Some (''dow'', weekday_val d)\<rparr>)
            (h\<lparr>warnings := warnings h @
                   [''Conjunction created: DOM AND DOW='' @ str_int (weekday_val d) @ ''. ''
                      @ ''Cron runs on DOM, use should_run() to validate both conditions.'']\<rparr>))"
  unfolding CronBuilder_and_dow_def Let_def by (rule refl)

lemma and_dom_eq:
  "CronBuilder_and_dom self d h =
    (if kind (expr (field_objs h (day_of_week (builder_objs h self)))) = ''any''
     then (Inl (ValueError ''Must set day_of_week before calling and_dom()''), h)
     else CronBuilder_copy_with self (no_kwargs\<lparr>kw_conjunction := Some (''dom'', d)\<rparr>)
            (h\<lparr>warnings := warnings h @
                   [''Conjunction created: DOW AND DOM='' @ str_int d @ ''. ''
                      @ ''Cron runs on DOW, use should_run() to validate both conditions.'']\<rparr>))"
  unfolding CronBuilder_and_dom_def Let_def by (rule refl)

lemma step_ok_conj:
  assumes wf: "wf_builder h self" and a: "a = ''dow'' \<or> a = ''dom''"
  shows "step_ok h self (CronBuilder_copy_with self (no_kwargs\<lparr>kw_conjunction := Some (a, v)\<rparr>)
           (h\<lparr>warnings := ws\<rparr>))"
proof (rule step_ok_copy_with)
  show "wf_builder (h\<lparr>warnings := ws\<rparr>) self" using wf by simp
  show "\<forall>x\<in>kw_refs (no_kwargs\<lparr>kw_conjunction := Some (a, v)\<rparr>).
       wf_field (h\<lparr>warnings := ws\<rparr>)
        (CronBuilder.immutable (builder_objs (h\<lparr>warnings := ws\<rparr>) self)) x"
    by simp
  show "wf_conj (kw_conjunction (no_kwargs\<lparr>kw_conjunction := Some (a, v)\<rparr>))"
    using a by (simp add: wf_conj_def)
  show "builder_objs (h\<lparr>warnings := ws\<rparr>) self = builder_objs h self" by simp
  show "next_addr h \<le> next_addr (h\<lparr>warnings := ws\<rparr>)" by simp
  show "extends h (h\<lparr>warnings := ws\<rparr>)" by simp
qed

lemma and_dow_step:
  assumes wf: "wf_builder h self"
  shows "step_ok h self (CronBuilder_and_dow self d h)"
  unfolding and_dow_eq using step_ok_conj [OF wf, of "''dow''"] wf by simp

lemma and_dom_step:
  assumes wf: "wf_builder h self"
  shows "step_ok h self (CronBuilder_and_dom self d h)"
  unfolding and_dom_eq using step_ok_conj [OF wf, of "''dom''"] wf by simp

lemma and_dow_atomic:
  assumes "CronBuilder_and_dow self wd h = (Inl e, h')"
  shows "h' = h"
proof (cases "kind (expr (field_objs h (day_of_month (builder_objs h self)))) = ''any''")
  case True
  with assms show ?thesis by (simp add: and_dow_eq)
next
  case False
  obtain b h2 where "CronBuilder_copy_with self (no_kwargs\<lparr>kw_conjunction := Some (''dow'', weekday_val wd)\<rparr>)
            (h\<lparr>warnings := warnings h @
                   [''Conjunction created: DOM AND DOW='' @ str_int (weekday_val wd) @ ''. ''
                      @ ''Cron runs on DOM, use should_run() to validate both conditions.'']\<rparr>) = (Inr b, h2)"
    using copy_with_Inr by blast
  with False assms show ?thesis by (simp add: and_dow_eq)
qed

lemma and_dom_atomic:
  assumes "CronBuilder_and_dom self d h = (Inl e, h')"
  shows "h' = h"
proof (cases "kind (expr (field_objs h (day_of_week (builder_objs h self)))) = ''any''")
  case True
  with assms show ?thesis by (simp add: and_dom_eq)
next
  case False
  obtain b h2 where "CronBuilder_copy_with self (no_kwargs\<lparr>kw_conjunction := Some (''dom'', d)\<rparr>)
            (h\<lparr>warnings := warnings h @
                   [''Conjunction created: DOW AND DOM='' @ str_int d @ ''. ''
                      @ ''Cron runs on DOW, use should_run() to validate both conditions.'']\<rparr>) = (Inr b, h2)"
    using copy_with_Inr by blast
  with False assms show ?thesis by (simp add: and_dom_eq)
qed

lemma chained_steps:
  assumes wf: "wf_builder h self"
  shows "step_ok h self (CronBuilder_at self hr m h)"
    and "step_ok h self (CronBuilder_hourly self m h)"
    and "step_ok h self (CronBuilder_daily self hr m h)"
    and "step_ok h self (CronBuilder_weekly self wd hr m h)"
    and "step_ok h self (CronBuilder_monthly self d hr m h)"
    and "step_ok h self (CronBuilder_yearly self mth d hr m h)"
proof -
  show at: "step_ok h self (CronBuilder_at self hr m h)"
    unfolding CronBuilder_at_def
    by (rule step_ok_bind [OF wf]) (simp_all add: simple_steps wf)
  show "step_ok h self (CronBuilder_hourly self m h)"
    by (simp add: CronBuilder_hourly_def simple_steps wf)
  show "step_ok h self (CronBuilder_daily self hr m h)"
    by (simp add: CronBuilder_daily_def at)
  show "step_ok h self (CronBuilder_weekly self wd hr m h)"
    unfolding CronBuilder_weekly_def
    by (rule step_ok_bind [OF wf at]) (simp add: simple_steps)
  show mo: "step_ok h self (CronBuilder_monthly self d hr m h)"
    unfolding CronBuilder_monthly_def
    by (rule step_ok_bind [OF wf at]) (simp add: simple_steps)
  show "step_ok h self (CronBuilder_yearly self mth d hr m h)"
    unfolding CronBuilder_yearly_def
    by (rule step_ok_bind [OF wf mo [unfolded CronBuilder_monthly_def]]) (simp add: simple_steps)
qed

lemma invoke_step_ok:
  assumes "wf_builder h self"
  shows "step_ok h self (invoke c self h)"
proof (cases c)
  case (At_minute x)
  then show ?thesis by (simp add: simple_steps(1) [OF assms])
next
  case (At_minutes x)
  then show ?thesis by (simp add: simple_steps(2) [OF assms])
next
  case (Every_minutes x)
  then show ?thesis by (simp add: simple_steps(3) [OF assms])
next
  case (Minute_range x y)
  then show ?thesis by (simp add: simple_steps(4) [OF assms])
next
  case (At_hour x)
  then show ?thesis by (simp add: simple_steps(5) [OF assms])
next
  case (At_hours x)
  then show ?thesis by (simp add: simple_steps(6) [OF assms])
next
  case (Every_hours x)
  then show ?thesis by (simp add: simple_steps(7) [OF assms])
next
  case (Hour_range x y)
  then show ?thesis by (simp add: simple_steps(8) [OF assms])
next
  case (At x y)
  then show ?thesis by (simp add: chained_steps(1) [OF assms])
next
  case (On_dom x)
  then show ?thesis by (simp add: simple_steps(9) [OF assms])
next
  case (On_doms x)
  then show ?thesis by (simp add: simple_steps(10) [OF assms])
next
  case (Dom_range x y)
  then show ?thesis by (simp add: simple_steps(11) [OF assms])
next
  case (In_month x)
  then show ?thesis by (simp add: simple_steps(12) [OF assms])
next
  case (In_months x)
  then show ?thesis by (simp add: simple_steps(13) [OF assms])
next
  case (Month_range x y)
  then show ?thesis by (simp add: simple_steps(14) [OF assms])
next
  case (On_dow x)
  then show ?thesis by (simp add: simple_steps(15) [OF assms])
next
  case (On_dows x)
  then show ?thesis by (simp add: simple_steps(16) [OF assms])
next
  case On_weekdays
  then show ?thesis by (simp add: simple_steps(17) [OF assms])
next
  case On_weekends
  then show ?thesis by (simp add: simple_steps(18) [OF assms])
next
  case (Dow_range x y)
  then show ?thesis by (simp add: simple_steps(19) [OF assms])
next
  case (Hourly x)
  then show ?thesis by (simp add: chained_steps(2) [OF assms])
next
  case (Daily x y)
  then show ?thesis by (simp add: chained_steps(3) [OF assms])
next
  case (Weekly x y z)
  then show ?thesis by (simp add: chained_steps(4) [OF assms])
next
  case (Monthly x y z)
  then show ?thesis by (simp add: chained_steps(5) [OF assms])
next
  case (Yearly x y z w)
  then show ?thesis by (simp add: chained_steps(6) [OF assms])
next
  case (And_dow x)
  then show ?thesis by (simp add: and_dow_step [OF assms])
next
  case (And_dom x)
  then show ?thesis by (simp add: and_dom_step [OF assms])
qed

lemma invoke_atomic:
  assumes "\<not> chained c" and "invoke c self h = (Inl e, h')"
  shows "h' = h"
proof (cases c)
  case (At_minute x)
  with assms(2) show ?thesis by (auto dest: simple_atomic(1))
next
  case (At_minutes x)
  with assms(2) show ?thesis by (auto dest: simple_atomic(2))
next
  case (Every_minutes x)
  with assms(2) show ?thesis by (auto dest: simple_atomic(3))
next
  case (Minute_range x y)
  with assms(2) show ?thesis by (auto dest: simple_atomic(4))
next
  case (At_hour x)
  with assms(2) show ?thesis by (auto dest: simple_atomic(5))
next
  case (At_hours x)
  with assms(2) show ?thesis by (auto dest: simple_atomic(6))
next
  case (Every_hours x)
  with assms(2) show ?thesis by (auto dest: simple_atomic(7))
next
  case (Hour_range x y)
  with assms(2) show ?thesis by (auto dest: simple_atomic(8))
next
  case (At x y)
  with assms(1) show ?thesis by simp
next
  case (On_dom x)
  with assms(2) show ?thesis by (auto dest: simple_atomic(9))
next
  case (On_doms x)
  with assms(2) show ?thesis by (auto dest: simple_atomic(10))
next
  case (Dom_range x y)
  with assms(2) show ?thesis by (auto dest: simple_atomic(11))
next
  case (In_month x)
  with assms(2) show ?thesis by (auto dest: simple_atomic(12))
next
  case (In_months x)
  with assms(2) show ?thesis by (auto dest: simple_atomic(13))
next
  case (Month_range x y)
  with assms(2) show ?thesis by (auto dest: simple_atomic(14))
next
  case (On_dow x)
  with assms(2) show ?thesis by (auto dest: simple_atomic(15))
next
  case (On_dows x)
  with assms(2) show ?thesis by (auto dest: simple_atomic(16))
next
  case On_weekdays
  with assms(2) show ?thesis by (auto dest: simple_atomic(17))
next
  case On_weekends
  with assms(2) show ?thesis by (auto dest: simple_atomic(18))
next
  case (Dow_range x y)
  with assms(2) show ?thesis by (auto dest: simple_atomic(19))
next
  case (Hourly x)
  with assms(2) show ?thesis by (auto simp add: CronBuilder_hourly_def dest: simple_atomic(1))
next
  case (Daily x y)
  with assms(1) show ?thesis by simp
next
  case (Weekly x y z)
  with assms(1) show ?thesis by simp
next
  case (Monthly x y z)
  with assms(1) show ?thesis by simp
next
  case (Yearly x y z w)
  with assms(1) show ?thesis by simp
next
  case (And_dow x)
  with assms(2) show ?thesis by (auto dest: and_dow_atomic)
next
  case (And_dom x)
  with assms(2) show ?thesis by (auto dest: and_dom_atomic)
qed

text \<open>
  Well-formedness is an invariant: the constructor establishes it
  (\<open>CronBuilder_init_wf\<close>), and every call keeps it for the receiver and gives it to
  the builder it returns.
\<close>

lemma invoke_wf:
  assumes "wf_builder h self"
  shows "wf_builder (snd (invoke c self h)) self"
    and "invoke c self h = (Inr b', h') \<Longrightarrow> wf_builder h' b'"
  using invoke_step_ok [OF assms, of c] by (simp_all add: step_ok_def)

text \<open>Consequences for a receiver in immutable mode.\<close>

lemma invoke_immutable_extends:
  assumes "wf_builder h self" and "CronBuilder.immutable (builder_objs h self)"
  shows "extends h (snd (invoke c self h))"
  using invoke_step_ok [OF assms(1), of c] assms(2) by (simp add: step_ok_def)

lemma invoke_all_extends:
  assumes "wf_builder h self" and "CronBuilder.immutable (builder_objs h self)"
  shows "extends h (invoke_all cs self h)"
  using assms
proof (induction cs arbitrary: h)
  case Nil
  show ?case by simp
next
  case (Cons c cs)
  let ?h1 = "snd (invoke c self h)"
  from invoke_immutable_extends [OF Cons.prems] have e: "extends h ?h1" .
  from wf_builder_extends [OF Cons.prems(1) e] have w: "wf_builder ?h1 self" .
  from extends_same(1) [OF Cons.prems(1) e] Cons.prems(2)
  have i: "CronBuilder.immutable (builder_objs ?h1 self)" by simp
  from Cons.IH [OF w i] have "extends ?h1 (invoke_all cs self ?h1)" .
  with e show ?case by (simp add: extends_trans)
qed


lemmas eval_defs =
  CronBuilder_init_def CronField_init_def empty_heap_def Let_def bind_def
  CronBuilder_dom_range_def CronBuilder_and_dow_def CronBuilder_at_def CronBuilder_at_hour_def
  CronBuilder_at_minute_def CronField_set_range_def CronField_set_value_def validate_value_def
  CronField_apply_def warn_overwrite_def set_expr_def CronBuilder_copy_with_def setattrs_def
  no_kwargs_def kw_get_def CronExpr_to_cron_str_def

lemma mutable_start_builder:
  "builder_objs mutable_start 5 = \<lparr>immutable = False, minute = 0, hour = 1, day_of_month = 2,
     month = 3, day_of_week = 4, conjunction = None\<rparr>"
  by (simp add: mutable_start_def eval_defs)

lemma first_monday_builder:
  "builder_objs first_monday 5 = \<lparr>immutable = False, minute = 0, hour = 1, day_of_month = 2,
     month = 3, day_of_week = 4, conjunction = Some (''dow'', 1)\<rparr>"
  by (simp add: first_monday_def mutable_start_def eval_defs)

lemma first_monday_dom:
  "expr (field_objs first_monday 2) = \<lparr>kind = ''range'', vals = [1, 7]\<rparr>"
  by (simp add: first_monday_def mutable_start_def eval_defs)

lemma first_monday_0930_builder:
  "builder_objs first_monday_0930 5 = \<lparr>immutable = False, minute = 0, hour = 1, day_of_month = 2,
     month = 3, day_of_week = 4, conjunction = Some (''dow'', 1)\<rparr>"
  by (simp add: first_monday_0930_def mutable_start_def eval_defs)

lemma first_monday_0930_minute:
  "expr (field_objs first_monday_0930 0) = \<lparr>kind = ''value'', vals = [30]\<rparr>"
  by (simp add: first_monday_0930_def mutable_start_def eval_defs)


lemma minute_field_heap_0 [simp]:
  "field_objs minute_field_heap 0 =
     \<lparr>min_val = 0, max_val = 59, name = ''minute'', immutable = False,
      expr = \<lparr>kind = ''any'', vals = []\<rparr>\<rparr>"
  by (simp add: minute_field_heap_def CronField_init_def empty_heap_def)

section \<open>Claims about one field\<close>

text \<open>
  In the three claims of this section the receiver holds a well-formed expression,
  as every field does that the constructor made and the setters changed. (On a mutable
  field \<open>_apply\<close> renders the expression it replaces for the overwrite warning, which
  raises on a tuple too short for its kind.)
\<close>









text \<open>
  The sentinel is an integer like any other: on a field whose bounds contain \<open>-1\<close>, a
  start of \<open>-1\<close> is not validated and is stored as the wildcard start all the same.
\<close>

lemma set_interval_sentinel:
  "0 < interval \<Longrightarrow>
   CronField_set_interval self interval (- 1) h
     = CronField_apply self \<lparr>kind = ''step'', vals = [- 1, interval]\<rparr> h"
  by (simp add: CronField_set_interval_def)


section \<open>The evaluation of a conjunction\<close>

lemma datetime_weekday_range: "0 \<le> datetime_weekday ts \<and> datetime_weekday ts < 7"
  by (simp add: datetime_weekday_def)

lemma cron_weekday_eq: "cron_weekday ts = (datetime_weekday ts + 1) mod 7"
proof -
  let ?w = "datetime_weekday ts"
  from datetime_weekday_range [of ts]
  have "?w = 0 \<or> ?w = 1 \<or> ?w = 2 \<or> ?w = 3 \<or> ?w = 4 \<or> ?w = 5 \<or> ?w = 6" by arith
  then show ?thesis
    by (elim disjE) (simp_all add: cron_weekday_def dayname_def)
qed

lemma cron_weekday_range: "0 \<le> cron_weekday ts \<and> cron_weekday ts \<le> 6"
  by (simp add: cron_weekday_eq)

lemma cron_weekday_sunday:
  "cron_weekday ts = 0 \<longleftrightarrow> dayname (datetime_weekday ts) = SUNDAY"
proof -
  let ?w = "datetime_weekday ts"
  from datetime_weekday_range [of ts]
  have "?w = 0 \<or> ?w = 1 \<or> ?w = 2 \<or> ?w = 3 \<or> ?w = 4 \<or> ?w = 5 \<or> ?w = 6" by arith
  then show ?thesis
    by (elim disjE) (simp_all add: cron_weekday_def dayname_def)
qed


lemma wf_builder_matches:
  assumes "wf_builder h self"
  shows "\<exists>m. CronField_matches h (day_of_month (builder_objs h self)) x = Inr m"
    and "\<exists>m. CronField_matches h (day_of_week (builder_objs h self)) x = Inr m"
  using assms
  by (simp_all add: wf_builder_iff wf_field_def CronField_matches_def wf_expr_matches)

text \<open>
  C1. For every well-formed builder and every timestamp, \<open>should_run(timestamp)\<close> returns the
  value of the reference definition: true when no conjunction is recorded; with the anchor
  \<open>dow\<close>, whether the day-of-month field matches the day of the timestamp and the converted
  weekday equals the anchor value; with the anchor \<open>dom\<close>, whether the day-of-week field
  matches the converted weekday and the day of the timestamp equals the anchor value. The
  converted weekday lies in [0..6] and is 0 exactly on a Sunday.
\<close>

theorem should_run_refines:
  assumes "wf_builder h self"
  shows "CronBuilder_should_run h self now (Some ts) = Inr (should_run_ref h self ts)
         \<and> 0 \<le> cron_weekday ts \<and> cron_weekday ts \<le> 6
         \<and> (cron_weekday ts = 0 \<longleftrightarrow> dayname (datetime_weekday ts) = SUNDAY)"
proof -
  have "CronBuilder_should_run h self now (Some ts) = Inr (should_run_ref h self ts)"
  proof (cases "conjunction (builder_objs h self)")
    case None
    then show ?thesis
      by (simp add: CronBuilder_should_run_def should_run_ref_def)
  next
    case (Some c)
    obtain anchor v where c: "c = (anchor, v)" by (cases c)
    from assms Some c have a: "anchor = ''dow'' \<or> anchor = ''dom''"
      by (simp add: wf_builder_iff wf_conj_def)
    obtain m1 where m1: "CronField_matches h (day_of_month (builder_objs h self)) (dt_day ts) = Inr m1"
      using wf_builder_matches(1) [OF assms] by blast
    obtain m2 where m2: "CronField_matches h (day_of_week (builder_objs h self)) (cron_weekday ts) = Inr m2"
      using wf_builder_matches(2) [OF assms] by blast
    from a show ?thesis
    proof
      assume "anchor = ''dow''"
      with Some c m1 show ?thesis
        by (simp add: CronBuilder_should_run_def should_run_ref_def Let_def cron_weekday_eq)
    next
      assume "anchor = ''dom''"
      with Some c m2 show ?thesis
        by (simp add: CronBuilder_should_run_def should_run_ref_def Let_def
            cron_weekday_eq [symmetric])
    qed
  qed
  with cron_weekday_range [of ts] cron_weekday_sunday [of ts] show ?thesis by simp
qed

lemma first_monday_wf: "wf_builder first_monday 5"
  by (simp add: wf_builder_iff wf_field_def wf_expr_def wf_conj_def first_monday_def
      mutable_start_def eval_defs)

lemmas date_defs = date_at_def cron_weekday_def datetime_weekday_def toordinal_def
  days_before_year_def days_before_month_def is_leap_def dayname_def

text \<open>
  The "first Monday of the month": Monday 1 January 2024 and Monday 6 January 2025 run,
  Monday 13 January 2025 and Wednesday 1 January 2025 do not.
\<close>

theorem should_run_refines_witness:
  "CronBuilder_should_run first_monday 5 (date_at 2000 1 1) (Some (date_at 2024 1 1)) = Inr True
   \<and> CronBuilder_should_run first_monday 5 (date_at 2000 1 1) (Some (date_at 2025 1 6)) = Inr True
   \<and> CronBuilder_should_run first_monday 5 (date_at 2000 1 1) (Some (date_at 2025 1 13)) = Inr False
   \<and> CronBuilder_should_run first_monday 5 (date_at 2000 1 1) (Some (date_at 2025 1 1)) = Inr False"
proof -
  note t = should_run_refines [OF first_monday_wf, of "date_at 2000 1 1", THEN conjunct1]
  have r: "\<And>ts. should_run_ref first_monday 5 ts
      = (1 \<le> dt_day ts \<and> dt_day ts \<le> 7 \<and> cron_weekday ts = 1)"
    by (simp add: should_run_ref_def first_monday_builder CronField_matches_def first_monday_dom)
  show ?thesis
    unfolding t r by (simp add: date_defs)
qed


section \<open>The conjunction setters\<close>



lemma mutable_start_exprs:
  "field_exprs mutable_start 5 = replicate 5 \<lparr>kind = ''any'', vals = []\<rparr>"
  by (simp add: mutable_start_def field_exprs_def eval_defs numeral_eq_Suc)


section \<open>An anchor outside its domain\<close>












section \<open>What the evaluation reads\<close>

text \<open>
  C10. \<open>should_run\<close> does not depend on the minute, hour and month fields: two builders,
  in any two stores, whose day-of-month fields hold the same expression, whose day-of-week
  fields hold the same expression and whose conjunctions are equal give the same result
  (or raise the same exception) at every timestamp.
\<close>

theorem should_run_independent:
  assumes "expr (field_objs h1 (day_of_month (builder_objs h1 b1)))
            = expr (field_objs h2 (day_of_month (builder_objs h2 b2)))"
    and "expr (field_objs h1 (day_of_week (builder_objs h1 b1)))
            = expr (field_objs h2 (day_of_week (builder_objs h2 b2)))"
    and "conjunction (builder_objs h1 b1) = conjunction (builder_objs h2 b2)"
  shows "CronBuilder_should_run h1 b1 now ct = CronBuilder_should_run h2 b2 now ct"
  unfolding CronBuilder_should_run_def CronField_matches_def assms by (rule refl)

lemma first_monday_0930_exprs:
  "field_exprs first_monday_0930 5 =
     [\<lparr>kind = ''value'', vals = [30]\<rparr>, \<lparr>kind = ''value'', vals = [9]\<rparr>,
      \<lparr>kind = ''range'', vals = [1, 7]\<rparr>, \<lparr>kind = ''any'', vals = []\<rparr>,
      \<lparr>kind = ''any'', vals = []\<rparr>]"
  by (simp add: field_exprs_def first_monday_0930_def mutable_start_def eval_defs)

lemma first_monday_exprs:
  "field_exprs first_monday 5 =
     [\<lparr>kind = ''any'', vals = []\<rparr>, \<lparr>kind = ''any'', vals = []\<rparr>,
      \<lparr>kind = ''range'', vals = [1, 7]\<rparr>, \<lparr>kind = ''any'', vals = []\<rparr>,
      \<lparr>kind = ''any'', vals = []\<rparr>]"
  by (simp add: field_exprs_def first_monday_def mutable_start_def eval_defs)

text \<open>
  The first Monday of the month with and without the time 9:30: the minute and hour
  fields differ, the results do not.
\<close>

theorem should_run_independent_witness:
  "field_exprs first_monday 5 \<noteq> field_exprs first_monday_0930 5
   \<and> CronBuilder_should_run first_monday 5 (date_at 2000 1 1) (Some (date_at 2025 1 6))
     = CronBuilder_should_run first_monday_0930 5 (date_at 2000 1 1) (Some (date_at 2025 1 6))
   \<and> CronBuilder_should_run first_monday_0930 5 (date_at 2000 1 1) (Some (date_at 2025 1 6))
     = Inr True"
proof -
  have a: "expr (field_objs first_monday (day_of_month (builder_objs first_monday 5)))
            = expr (field_objs first_monday_0930 (day_of_month (builder_objs first_monday_0930 5)))"
    using first_monday_exprs first_monday_0930_exprs by (simp add: field_exprs_def Let_def)
  have b: "expr (field_objs first_monday (day_of_week (builder_objs first_monday 5)))
            = expr (field_objs first_monday_0930 (day_of_week (builder_objs first_monday_0930 5)))"
    using first_monday_exprs first_monday_0930_exprs by (simp add: field_exprs_def Let_def)
  have c: "conjunction (builder_objs first_monday 5) = conjunction (builder_objs first_monday_0930 5)"
    by (simp add: first_monday_builder first_monday_0930_builder)
  note t = should_run_independent [OF a b c, of "date_at 2000 1 1" "Some (date_at 2025 1 6)"]
  have "CronBuilder_should_run first_monday 5 (date_at 2000 1 1) (Some (date_at 2025 1 6)) = Inr True"
    by (simp add: CronBuilder_should_run_def first_monday_builder CronField_matches_def
        first_monday_dom date_defs)
  with t show ?thesis
    by (simp add: first_monday_exprs first_monday_0930_exprs)
qed


section \<open>Rendering\<close>

lemma CronBuilder_init_str:
  "CronBuilder_str (snd (CronBuilder_init imm h)) (fst (CronBuilder_init imm h)) = Inr ''* * * * *''"
proof -
  obtain b h' where i: "CronBuilder_init imm h = (b, h')"
    by (cases "CronBuilder_init imm h")
  from CronBuilder_init_exprs [OF i]
  have e: "expr (field_objs h' (minute (builder_objs h' b))) = \<lparr>kind = ''any'', vals = []\<rparr>"
    "expr (field_objs h' (hour (builder_objs h' b))) = \<lparr>kind = ''any'', vals = []\<rparr>"
    "expr (field_objs h' (day_of_month (builder_objs h' b))) = \<lparr>kind = ''any'', vals = []\<rparr>"
    "expr (field_objs h' (month (builder_objs h' b))) = \<lparr>kind = ''any'', vals = []\<rparr>"
    "expr (field_objs h' (day_of_week (builder_objs h' b))) = \<lparr>kind = ''any'', vals = []\<rparr>"
    by (simp_all add: field_exprs_def Let_def numeral_eq_Suc)
  have a: "CronExpr_to_cron_str \<lparr>kind = ''any'', vals = []\<rparr> = Inr ''*''"
    by (simp add: CronExpr_to_cron_str_def)
  show ?thesis
    unfolding i fst_conv snd_conv CronBuilder_str_def Let_def CronField_str_def e a
    by simp
qed


lemma str_int_examples:
  "str_int 0 = ''0''" "str_int 1 = ''1''" "str_int 5 = ''5''" "str_int 7 = ''7''"
  "str_int 9 = ''9''" "str_int 15 = ''15''" "str_int 17 = ''17''" "str_int 30 = ''30''"
  "str_int (- 120) = ''-120''"
  by (simp_all add: str_int_def str_nat.simps digit_char_def)



section \<open>Failed calls\<close>

text \<open>
  C6, as the code has it. A call that sets one field (\<open>at_minute\<close> to \<open>dow_range\<close>, and
  \<open>hourly\<close>) or a conjunction, and that raises, leaves the whole store as it was, in both
  modes: \<open>set_values\<close> and \<open>set_range\<close> validate every argument before \<open>_apply\<close> replaces
  the expression. In immutable mode the observable state and the rendering of the receiver
  are unchanged after every call that raises, the combinators \<open>at\<close>, \<open>daily\<close>, \<open>weekly\<close>,
  \<open>monthly\<close> and \<open>yearly\<close> included.
\<close>

theorem failed_call_atomic:
  assumes "invoke c self h = (Inl e, h')"
  shows "(\<not> chained c \<longrightarrow> h' = h)
       \<and> (wf_builder h self \<and> CronBuilder.immutable (builder_objs h self) \<longrightarrow>
            observable_state h' self = observable_state h self
            \<and> CronBuilder_str h' self = CronBuilder_str h self)"
proof (intro conjI impI)
  assume "\<not> chained c"
  then show "h' = h" using assms by (rule invoke_atomic)
next
  assume a: "wf_builder h self \<and> CronBuilder.immutable (builder_objs h self)"
  with invoke_immutable_extends [of h self c] assms have e: "extends h h'" by simp
  from a have w: "wf_builder h self" by simp
  show "observable_state h' self = observable_state h self"
    by (rule observable_extends [OF w e])
  show "CronBuilder_str h' self = CronBuilder_str h self"
    by (rule str_extends [OF w e])
qed

lemmas call_defs = CronBuilder_at_hours_def CronBuilder_minute_range_def CronField_set_values_def

lemma mutable_start_wf: "wf_builder mutable_start 5"
  by (simp add: wf_builder_iff wf_field_def wf_expr_def wf_conj_def mutable_start_def eval_defs)

lemma immutable_start_wf: "wf_builder immutable_start 5"
  by (simp add: wf_builder_iff wf_field_def wf_expr_def wf_conj_def immutable_start_def eval_defs)

lemma immutable_start_mode: "CronBuilder.immutable (builder_objs immutable_start 5)"
  by (simp add: immutable_start_def eval_defs)

lemma immutable_start_str: "CronBuilder_str immutable_start 5 = Inr ''* * * * *''"
proof -
  have "fst (CronBuilder_init True empty_heap) = 5"
    by (simp add: CronBuilder_init_eq empty_heap_def)
  with CronBuilder_init_str [of True empty_heap] show ?thesis
    by (simp add: immutable_start_def)
qed

text \<open>
  On a new mutable builder \<open>minute_range(30, 15)\<close> and \<open>at_hours(9, 24)\<close> raise and the
  store is the same; on a new immutable builder \<open>at(9, 60)\<close> raises and the builder still
  renders as five wildcards.
\<close>

theorem failed_call_atomic_witness:
  "fst (invoke (Minute_range 30 15) 5 mutable_start)
     = Inl (ValueError ''Range start (30) must be <= end (15)'')
   \<and> snd (invoke (Minute_range 30 15) 5 mutable_start) = mutable_start
   \<and> fst (invoke (At_hours [9, 24]) 5 mutable_start)
     = Inl (ValueError ''hour must be between 0 and 23, got 24'')
   \<and> snd (invoke (At_hours [9, 24]) 5 mutable_start) = mutable_start
   \<and> fst (invoke (At 9 60) 5 immutable_start)
     = Inl (ValueError ''minute must be between 0 and 59, got 60'')
   \<and> CronBuilder_str (snd (invoke (At 9 60) 5 immutable_start)) 5 = Inr ''* * * * *''"
proof -
  have s: "str_int 23 = ''23''" "str_int 24 = ''24''" "str_int 59 = ''59''" "str_int 60 = ''60''"
    by (simp_all add: str_int_def str_nat.simps digit_char_def)
  have 1: "fst (invoke (Minute_range 30 15) 5 mutable_start)
     = Inl (ValueError ''Range start (30) must be <= end (15)'')"
    by (simp add: mutable_start_def eval_defs call_defs str_int_examples)
  have 2: "fst (invoke (At_hours [9, 24]) 5 mutable_start)
     = Inl (ValueError ''hour must be between 0 and 23, got 24'')"
    by (simp add: mutable_start_def eval_defs call_defs str_int_examples s)
  have 3: "fst (invoke (At 9 60) 5 immutable_start)
     = Inl (ValueError ''minute must be between 0 and 59, got 60'')"
    by (simp add: immutable_start_def eval_defs call_defs str_int_examples s)
  from 1 have a: "invoke (Minute_range 30 15) 5 mutable_start
      = (Inl (ValueError ''Range start (30) must be <= end (15)''),
         snd (invoke (Minute_range 30 15) 5 mutable_start))"
    by (simp add: prod_eq_iff)
  from 2 have b: "invoke (At_hours [9, 24]) 5 mutable_start
      = (Inl (ValueError ''hour must be between 0 and 23, got 24''),
         snd (invoke (At_hours [9, 24]) 5 mutable_start))"
    by (simp add: prod_eq_iff)
  from 3 have c: "invoke (At 9 60) 5 immutable_start
      = (Inl (ValueError ''minute must be between 0 and 59, got 60''),
         snd (invoke (At 9 60) 5 immutable_start))"
    by (simp add: prod_eq_iff)
  from failed_call_atomic [OF a, THEN conjunct1]
  have 4: "snd (invoke (Minute_range 30 15) 5 mutable_start) = mutable_start" by simp
  from failed_call_atomic [OF b, THEN conjunct1]
  have 5: "snd (invoke (At_hours [9, 24]) 5 mutable_start) = mutable_start" by simp
  from failed_call_atomic [OF c, THEN conjunct2] immutable_start_wf immutable_start_mode
  have 6: "CronBuilder_str (snd (invoke (At 9 60) 5 immutable_start)) 5 = Inr ''* * * * *''"
    by (simp add: immutable_start_str)
  from 1 2 3 4 5 6 show ?thesis by blast
qed

text \<open>
  C6 as stated fails: on a new mutable builder \<open>at(9, 60)\<close> raises the ValueError of the
  minute after \<open>at_hour(9)\<close> has replaced the expression of the hour field.
\<close>

theorem failed_call_atomic_counterexample:
  "wf_builder mutable_start 5
   \<and> fst (CronBuilder_at 5 9 60 mutable_start)
       = Inl (ValueError ''minute must be between 0 and 59, got 60'')
   \<and> observable_state mutable_start 5
       = (replicate 5 \<lparr>kind = ''any'', vals = []\<rparr>, None)
   \<and> observable_state (snd (CronBuilder_at 5 9 60 mutable_start)) 5
       = ([\<lparr>kind = ''any'', vals = []\<rparr>, \<lparr>kind = ''value'', vals = [9]\<rparr>,
           \<lparr>kind = ''any'', vals = []\<rparr>, \<lparr>kind = ''any'', vals = []\<rparr>,
           \<lparr>kind = ''any'', vals = []\<rparr>], None)
   \<and> observable_state (snd (CronBuilder_at 5 9 60 mutable_start)) 5
       \<noteq> observable_state mutable_start 5"
proof -
  have s: "str_int 59 = ''59''" "str_int 60 = ''60''"
    by (simp_all add: str_int_def str_nat.simps digit_char_def)
  have 1: "fst (CronBuilder_at 5 9 60 mutable_start)
       = Inl (ValueError ''minute must be between 0 and 59, got 60'')"
    by (simp add: mutable_start_def eval_defs str_int_examples s)
  have 2: "observable_state mutable_start 5 = (replicate 5 \<lparr>kind = ''any'', vals = []\<rparr>, None)"
    by (simp add: observable_state_def mutable_start_exprs mutable_start_builder)
  have 3: "observable_state (snd (CronBuilder_at 5 9 60 mutable_start)) 5
       = ([\<lparr>kind = ''any'', vals = []\<rparr>, \<lparr>kind = ''value'', vals = [9]\<rparr>,
           \<lparr>kind = ''any'', vals = []\<rparr>, \<lparr>kind = ''any'', vals = []\<rparr>,
           \<lparr>kind = ''any'', vals = []\<rparr>], None)"
    by (simp add: observable_state_def field_exprs_def mutable_start_def eval_defs)
  from 2 3 have 4: "observable_state (snd (CronBuilder_at 5 9 60 mutable_start)) 5
       \<noteq> observable_state mutable_start 5"
    by (simp add: numeral_eq_Suc)
  from mutable_start_wf 1 2 3 4 show ?thesis by blast
qed

section \<open>Immutable mode\<close>

text \<open>
  C8. In immutable mode, a call on a well-formed builder \<open>b1\<close> that returns a builder
  \<open>b2\<close> returns a new object and leaves the observable state of \<open>b1\<close> (the expressions of
  its five fields and its conjunction) and its rendering unchanged; and so does every
  sequence of further calls on \<open>b2\<close>, whether they succeed or raise.
\<close>

theorem immutable_isolation:
  assumes "wf_builder h b1" and "CronBuilder.immutable (builder_objs h b1)"
    and "invoke c b1 h = (Inr b2, h')"
  shows "b2 \<noteq> b1 \<and> next_addr h \<le> b2
       \<and> observable_state h' b1 = observable_state h b1
       \<and> CronBuilder_str h' b1 = CronBuilder_str h b1
       \<and> (\<forall>cs. observable_state (invoke_all cs b2 h') b1 = observable_state h b1
              \<and> CronBuilder_str (invoke_all cs b2 h') b1 = CronBuilder_str h b1)"
proof -
  from invoke_step_ok [OF assms(1), of c] assms(2,3)
  have e: "extends h h'" and w2: "wf_builder h' b2"
    and i2: "CronBuilder.immutable (builder_objs h' b2)" and n: "next_addr h \<le> b2"
    by (simp_all add: step_ok_def)
  from assms(1) have "b1 < next_addr h" by (simp add: wf_builder_iff)
  with n have d: "b2 \<noteq> b1" by simp
  have "observable_state (invoke_all cs b2 h') b1 = observable_state h b1
      \<and> CronBuilder_str (invoke_all cs b2 h') b1 = CronBuilder_str h b1" for cs
  proof -
    from invoke_all_extends [OF w2 i2, of cs] e
    have x: "extends h (invoke_all cs b2 h')" by (rule extends_trans [rotated])
    show ?thesis
      using observable_extends [OF assms(1) x] str_extends [OF assms(1) x] by simp
  qed
  with d n observable_extends [OF assms(1) e] str_extends [OF assms(1) e] show ?thesis
    by simp
qed

text \<open>
  \<open>b2 = b1.at_hour(9)\<close> on a new immutable builder is the new object at address 12 and
  renders as \<open>* 9 * * *\<close>; after \<open>b2.at_hour(14)\<close>, \<open>b2.at_minute(60)\<close> (which raises) and
  \<open>b2.on_weekdays()\<close>, \<open>b1\<close> still renders as five wildcards.
\<close>

theorem immutable_isolation_witness:
  "fst (invoke (At_hour 9) 5 immutable_start) = Inr 12
   \<and> CronBuilder_str (snd (invoke (At_hour 9) 5 immutable_start)) 12 = Inr ''* 9 * * *''
   \<and> CronBuilder_str (snd (invoke (At_hour 9) 5 immutable_start)) 5 = Inr ''* * * * *''
   \<and> CronBuilder_str
        (invoke_all [At_hour 14, At_minute 60, On_weekdays] 12
           (snd (invoke (At_hour 9) 5 immutable_start))) 5 = Inr ''* * * * *''"
proof -
  have 1: "fst (invoke (At_hour 9) 5 immutable_start) = Inr 12"
    by (simp add: immutable_start_def eval_defs)
  have 2: "CronBuilder_str (snd (invoke (At_hour 9) 5 immutable_start)) 12 = Inr ''* 9 * * *''"
    by (simp add: immutable_start_def eval_defs CronBuilder_str_def CronField_str_def
        str_int_examples)
  from 1 have a: "invoke (At_hour 9) 5 immutable_start
      = (Inr 12, snd (invoke (At_hour 9) 5 immutable_start))"
    by (simp add: prod_eq_iff)
  note t = immutable_isolation [OF immutable_start_wf immutable_start_mode a]
  from t have 3: "CronBuilder_str (snd (invoke (At_hour 9) 5 immutable_start)) 5
      = Inr ''* * * * *''"
    by (simp add: immutable_start_str)
  from t have "CronBuilder_str
        (invoke_all [At_hour 14, At_minute 60, On_weekdays] 12
           (snd (invoke (At_hour 9) 5 immutable_start))) 5 = CronBuilder_str immutable_start 5"
    by blast
  with 1 2 3 show ?thesis by (simp add: immutable_start_str)
qed

end
